theory Spec2Isabelle
  imports Main "HOL-Library.Word" "HOL-Library.Multiset"
begin

unbundle bit_operations_syntax

section \<open>Data model of \<open>library/modules/Military.cpp\<close>\<close>

text \<open>
  The module works on the host's object graph through pointers. The embedding keeps
  every record by value inside the collection that owns it: a \<open>std::vector\<close> of
  pointers is a list of records, a pointer obtained by a search loop with \<open>break\<close>
  denotes the first matching element, and a write through such a pointer rewrites that
  element in place. Only the fields that the module reads or writes are kept.
  Pointers that the code dereferences and that may be null (the \<open>df::global\<close>
  pointers and the results of \<open>find\<close>) are \<open>option\<close> values.
\<close>

type_synonym int32_t = "32 word"
type_synonym int16_t = "16 word"

text \<open>What goes wrong in C++ where the source has no guard.\<close>

datatype fault =
  NullDeref         \<comment> \<open>a null pointer is dereferenced\<close>
| LengthError       \<comment> \<open>\<open>std::vector::resize\<close> with a negative count converted to \<open>size_t\<close>\<close>

datatype language_name_type = Squad | OtherNameType
datatype part_of_speech = Noun | OtherPartOfSpeech

record language_name =
  ln_type :: language_name_type
  ln_words :: "int32_t list"
  ln_parts_of_speech :: "part_of_speech list"

record squad_position =
  sp_flags :: "32 word"

record squad_order =
  so_year :: int32_t
  so_year_tick :: int32_t
  so_unk_v40_3 :: int

text \<open>
  \<open>sso_positions\<close> is the vector that \<open>resize(squad_size)\<close> fills with
  value-initialised cells; its element type is declared in a header that is not part of
  the module, and only its length is observed.
\<close>

record squad_schedule_order =
  sso_min_count :: int32_t
  sso_positions :: "bool list"
  sso_order :: "squad_order option"

record squad_schedule_entry =
  sse_sleep_mode :: int
  sse_uniform_mode :: int
  sse_orders :: "squad_schedule_order list"
  sse_order_assignments :: "int32_t list"

record T_rooms =
  rm_building_id :: int32_t
  rm_mode :: "32 word"

record T_squad_room_info =
  sri_squad_id :: int32_t
  sri_mode :: "32 word"

record squad =
  sq_id :: int32_t
  sq_alias :: string
  sq_name :: language_name
  sq_cur_routine_idx :: int
  sq_uniform_priority :: int32_t
  sq_activity :: int
  sq_carry_food :: int
  sq_carry_water :: int
  sq_entity_id :: int32_t
  sq_leader_position :: int32_t
  sq_leader_assignment :: int32_t
  sq_ammo_update :: int
  sq_positions :: "squad_position list"
  sq_schedule :: "squad_schedule_entry list list"
  sq_rooms :: "T_rooms list"

record entity_position =
  ep_id :: int32_t
  ep_squad_size :: int16_t

record entity_position_assignment =
  epa_id :: int32_t
  epa_position_id :: int32_t
  epa_squad_id :: int32_t

record historical_entity =
  he_id :: int32_t
  he_own :: "entity_position list"                    \<comment> \<open>\<open>positions.own\<close>\<close>
  he_assignments :: "entity_position_assignment list" \<comment> \<open>\<open>positions.assignments\<close>\<close>
  he_squads :: "int32_t list"

record building_civzonest =
  bz_id :: int32_t
  bz_squad_room_info :: "T_squad_room_info list"

datatype building =
  Building_civzonest building_civzonest
| Building_other int32_t

record alert_routine =
  ar_name :: string

record plotinfost =
  pi_group_id :: int32_t
  pi_routines :: "alert_routine list"                 \<comment> \<open>\<open>alerts.routines\<close>\<close>

record df_world =
  squads_all :: "squad list"                          \<comment> \<open>\<open>world->squads.all\<close>\<close>

text \<open>
  The host state. The first five fields are the \<open>df::global\<close> pointers the module
  uses. \<open>entities\<close> and \<open>buildings\<close> are the registries behind
  \<open>df::historical_entity::find\<close> and \<open>df::building::find\<close>.
\<close>

record state =
  squad_next_id :: "int32_t option"
  plotinfo :: "plotinfost option"
  cur_year :: "int32_t option"
  cur_year_tick :: "int32_t option"
  world :: "df_world option"
  entities :: "historical_entity list"
  buildings :: "building list"

subsection \<open>Searching and writing through the found pointer\<close>

text \<open>
  \<open>find_first P xs\<close> is the loop \<open>for (auto* x : xs) if (P x) { found = x; break; }\<close>;
  \<open>None\<close> is the null pointer the loop leaves when nothing matches.
\<close>

primrec find_first :: "('a \<Rightarrow> bool) \<Rightarrow> 'a list \<Rightarrow> 'a option" where
  "find_first P [] = None"
| "find_first P (x # xs) = (if P x then Some x else find_first P xs)"

text \<open>A write through the pointer that \<open>find_first P\<close> returned.\<close>

primrec update_first :: "('a \<Rightarrow> bool) \<Rightarrow> ('a \<Rightarrow> 'a) \<Rightarrow> 'a list \<Rightarrow> 'a list" where
  "update_first P f [] = []"
| "update_first P f (x # xs) = (if P x then f x # xs else x # update_first P f xs)"

subsection \<open>The host's lookup accessors\<close>

text \<open>
  Modelled from the spec: \<open>df::squad::find\<close>, \<open>df::historical_entity::find\<close>
  and \<open>df::building::find\<close> are generated accessors whose code is not in the module.
  The specification describes them as lookup by id that yields the record or nothing;
  they are taken to return the first record of the registry with the given id. The squad
  registry is \<open>world->squads.all\<close>, the vector \<open>makeSquad\<close> appends to.
\<close>

definition squad_find :: "state \<Rightarrow> int32_t \<Rightarrow> squad option" where
  "squad_find st squad_id =
     (case world st of
        None \<Rightarrow> None
      | Some w \<Rightarrow> find_first (\<lambda>s. sq_id s = squad_id) (squads_all w))"

definition historical_entity_find :: "state \<Rightarrow> int32_t \<Rightarrow> historical_entity option" where
  "historical_entity_find st entity_id = find_first (\<lambda>e. he_id e = entity_id) (entities st)"

fun building_id :: "building \<Rightarrow> int32_t" where
  "building_id (Building_civzonest z) = bz_id z"
| "building_id (Building_other i) = i"

definition building_find :: "state \<Rightarrow> int32_t \<Rightarrow> building option" where
  "building_find st bid = find_first (\<lambda>b. building_id b = bid) (buildings st)"

text \<open>\<open>strict_virtual_cast<df::building_civzonest>\<close>: null for null and for any other kind.\<close>

fun strict_virtual_cast_civzonest :: "building option \<Rightarrow> building_civzonest option" where
  "strict_virtual_cast_civzonest (Some (Building_civzonest z)) = Some z"
| "strict_virtual_cast_civzonest _ = None"

text \<open>Writing a changed squad or zone back to the place the accessor found it at.\<close>

definition squad_store :: "int32_t \<Rightarrow> squad \<Rightarrow> state \<Rightarrow> state" where
  "squad_store squad_id s st =
     (case world st of
        None \<Rightarrow> st
      | Some w \<Rightarrow>
          st\<lparr>world := Some (w\<lparr>squads_all :=
                update_first (\<lambda>x. sq_id x = squad_id) (\<lambda>_. s) (squads_all w)\<rparr>)\<rparr>)"

definition zone_store :: "int32_t \<Rightarrow> building_civzonest \<Rightarrow> state \<Rightarrow> state" where
  "zone_store civzone_id z st =
     st\<lparr>buildings :=
          update_first (\<lambda>b. building_id b = civzone_id) (\<lambda>_. Building_civzonest z) (buildings st)\<rparr>"

section \<open>\<open>Military::getSquadName\<close>\<close>

text \<open>
  \<open>Translation::TranslateName\<close> belongs to another module and is a parameter. The
  state is returned next to the string so that "nothing is mutated" is a statement.
\<close>

definition getSquadName ::
  "(language_name \<Rightarrow> bool \<Rightarrow> string) \<Rightarrow> state \<Rightarrow> int32_t \<Rightarrow> string \<times> state" where
  "getSquadName TranslateName st squad_id =
     (case squad_find st squad_id of
        None \<Rightarrow> ('''', st)
      | Some squad \<Rightarrow>
          if length (sq_alias squad) > 0 then (sq_alias squad, st)
          else (TranslateName (sq_name squad) True, st))"

section \<open>\<open>Military::updateRoomAssignments\<close>\<close>

text \<open>
  The two \<open>std::sort\<close> calls compare \<open>int32_t\<close> keys with \<open><\<close>, the signed
  order. \<open>std::sort\<close> leaves the order of equal keys open; \<open>sort_key\<close> is one
  such sort, and the results below use only that its output is ordered and holds the same
  records.
\<close>

definition sort_rooms :: "T_rooms list \<Rightarrow> T_rooms list" where
  "sort_rooms rooms = sort_key (\<lambda>r. sint (rm_building_id r)) rooms"

definition sort_squad_room_info :: "T_squad_room_info list \<Rightarrow> T_squad_room_info list" where
  "sort_squad_room_info infos = sort_key (\<lambda>r. sint (sri_squad_id r)) infos"

text \<open>
  The constructors \<open>df::squad::T_rooms()\<close> and \<open>T_squad_room_info()\<close> are
  generated code; the mode they leave is overwritten before the function returns.
\<close>

definition new_T_rooms :: T_rooms where
  "new_T_rooms = \<lparr>rm_building_id = 0, rm_mode = 0\<rparr>"

definition new_T_squad_room_info :: T_squad_room_info where
  "new_T_squad_room_info = \<lparr>sri_squad_id = 0, sri_mode = 0\<rparr>"

text \<open>
  The closing loop of the function: walk \<open>squad->rooms\<close>, and on a match delete the
  record, erase the slot and step the index back so the next record is looked at.
\<close>

primrec erase_rooms :: "int32_t \<Rightarrow> T_rooms list \<Rightarrow> T_rooms list" where
  "erase_rooms civzone_id [] = []"
| "erase_rooms civzone_id (r # rs) =
     (if rm_building_id r = civzone_id then erase_rooms civzone_id rs
      else r # erase_rooms civzone_id rs)"

text \<open>
  \<open>room_from_squad\<close> and \<open>room_from_building\<close> are either the first record with
  the key (found by the search loop) or the record just created, which is then the only
  one with the key, wherever the sort has put it. In both cases the later write of
  \<open>mode\<close> goes to the first record with the key. The variables numbered 1 are the
  pointers and vectors after the two creation blocks.
\<close>

definition updateRoomAssignments :: "state \<Rightarrow> int32_t \<Rightarrow> int32_t \<Rightarrow> 32 word \<Rightarrow> state" where
  "updateRoomAssignments st squad_id civzone_id flags =
     (case (squad_find st squad_id,
            strict_virtual_cast_civzonest (building_find st civzone_id)) of
        (None, _) \<Rightarrow> st
      | (_, None) \<Rightarrow> st
      | (Some squad, Some zone) \<Rightarrow>
          let room_from_squad = find_first (\<lambda>r. rm_building_id r = civzone_id) (sq_rooms squad);
              room_from_building =
                find_first (\<lambda>r. sri_squad_id r = squad_id) (bz_squad_room_info zone)
          in
          if flags = 0 \<and> room_from_squad = None \<and> room_from_building = None then st
          else
            let avoiding_squad_roundtrip = (flags = 0 \<and> room_from_squad = None);
                created_squad_room = (\<not> avoiding_squad_roundtrip \<and> room_from_squad = None);
                rooms1 =
                  (if created_squad_room
                   then sort_rooms (sq_rooms squad @ [new_T_rooms\<lparr>rm_building_id := civzone_id\<rparr>])
                   else sq_rooms squad);
                room_from_squad1 =
                  (if created_squad_room then Some (new_T_rooms\<lparr>rm_building_id := civzone_id\<rparr>)
                   else room_from_squad);
                infos1 =
                  (if room_from_building = None
                   then sort_squad_room_info
                          (bz_squad_room_info zone @
                             [new_T_squad_room_info\<lparr>sri_squad_id := squad_id\<rparr>])
                   else bz_squad_room_info zone);
                rooms2 =
                  (if room_from_squad1 \<noteq> None
                   then update_first (\<lambda>r. rm_building_id r = civzone_id)
                          (\<lambda>r. r\<lparr>rm_mode := flags\<rparr>) rooms1
                   else rooms1);
                infos2 =
                  update_first (\<lambda>r. sri_squad_id r = squad_id)
                    (\<lambda>r. r\<lparr>sri_mode := flags\<rparr>) infos1;
                rooms3 =
                  (if flags = 0 \<and> \<not> avoiding_squad_roundtrip
                   then erase_rooms civzone_id rooms2 else rooms2)
            in zone_store civzone_id (zone\<lparr>bz_squad_room_info := infos2\<rparr>)
                 (squad_store squad_id (squad\<lparr>sq_rooms := rooms3\<rparr>) st))"

section \<open>\<open>Military::makeSquad\<close>\<close>

text \<open>
  \<open>result->id + 1\<close> and \<open>(*squad_next_id)++\<close> are \<open>int32_t\<close> additions and
  the source puts no guard before them. They are \<open>+ 1\<close> on \<open>32 word\<close>: at
  \<open>INT32_MAX\<close> the value wraps around to \<open>INT32_MIN\<close> and the call goes on.
\<close>

text \<open>Lines 42 to 49: the name of kind Squad with its seven word slots.\<close>

definition empty_squad_name :: language_name where
  "empty_squad_name =
     \<lparr>ln_type = Squad, ln_words = replicate 7 (- 1), ln_parts_of_speech = replicate 7 Noun\<rparr>"

text \<open>
  Modelled from the spec: the constructor of \<open>df::squad_schedule_entry\<close> is generated
  code that is not in the module; the specification gives a freshly constructed slot
  sleep-mode 0, uniform-mode 0 and no orders.
\<close>

definition new_squad_schedule_entry :: squad_schedule_entry where
  "new_squad_schedule_entry =
     \<lparr>sse_sleep_mode = 0, sse_uniform_mode = 0, sse_orders = [], sse_order_assignments = []\<rparr>"

text \<open>
  A loop \<open>for (int i = 0; i < squad_size; i++)\<close> over the \<open>int16_t\<close> size runs
  \<open>nat (sint squad_size)\<close> times: not at all when the size is negative.
\<close>

definition alloc_asched :: "int16_t \<Rightarrow> squad_schedule_entry list" where
  "alloc_asched squad_size =
     replicate 12
       (new_squad_schedule_entry
          \<lparr>sse_order_assignments := replicate (nat (sint squad_size)) (- 1)\<rparr>)"

text \<open>
  The closure \<open>insert_training_order\<close>. \<open>resize(squad_size)\<close> converts the size to
  \<open>size_t\<close>, so a negative size asks for more than \<open>max_size()\<close> cells and throws;
  \<open>cur_year\<close> and \<open>cur_year_tick\<close> are dereferenced without a check. It is only
  called with \<open>month < 12\<close>. \<open>new_training_order\<close> is the order of lines 130
  to 141, with \<open>min_count\<close> the size widened to \<open>int32_t\<close>.
\<close>

definition new_training_order :: "int16_t \<Rightarrow> int32_t \<Rightarrow> int32_t \<Rightarrow> squad_schedule_order" where
  "new_training_order squad_size y t =
     \<lparr>sso_min_count = scast squad_size,
      sso_positions = replicate (nat (sint squad_size)) False,
      sso_order = Some \<lparr>so_year = y, so_year_tick = t, so_unk_v40_3 = - 1\<rparr>\<rparr>"

definition insert_training_order ::
  "state \<Rightarrow> int16_t \<Rightarrow> squad_schedule_entry list \<Rightarrow> nat \<Rightarrow> fault + squad_schedule_entry list" where
  "insert_training_order st squad_size asched month =
     (if sint squad_size < 0 then Inl LengthError
      else
        case cur_year st of
          None \<Rightarrow> Inl NullDeref
        | Some y \<Rightarrow>
            (case cur_year_tick st of
               None \<Rightarrow> Inl NullDeref
             | Some t \<Rightarrow>
                 Inr (asched[month := (asched ! month)
                        \<lparr>sse_orders :=
                           sse_orders (asched ! month) @ [new_training_order squad_size y t],
                         sse_uniform_mode := 0\<rparr>])))"

text \<open>The loops of the two training branches: attach the order, then set sleep-mode 0.\<close>

fun train_months ::
  "state \<Rightarrow> int16_t \<Rightarrow> nat list \<Rightarrow> squad_schedule_entry list \<Rightarrow> fault + squad_schedule_entry list" where
  "train_months st squad_size [] asched = Inr asched"
| "train_months st squad_size (index # rest) asched =
     (case insert_training_order st squad_size asched index of
        Inl f \<Rightarrow> Inl f
      | Inr asched' \<Rightarrow>
          train_months st squad_size rest
            (asched'[index := (asched' ! index)\<lparr>sse_sleep_mode := 0\<rparr>]))"

definition staggered_indices :: "int32_t \<Rightarrow> nat list" where
  "staggered_indices next_id =
     (if next_id AND 1 \<noteq> 0 then [3, 4, 5, 9, 10, 11] else [0, 1, 2, 6, 7, 8])"

text \<open>The body of the loop over the alert routines: one array of twelve slots.\<close>

definition routine_schedule ::
  "state \<Rightarrow> int32_t \<Rightarrow> int16_t \<Rightarrow> alert_routine \<Rightarrow> fault + squad_schedule_entry list" where
  "routine_schedule st next_id squad_size routine =
     (let asched = alloc_asched squad_size in
      if ar_name routine = ''Off duty'' then
        Inr (map (\<lambda>e. e\<lparr>sse_sleep_mode := 0, sse_uniform_mode := 1\<rparr>) asched)
      else if ar_name routine = ''Staggered training'' then
        train_months st squad_size (staggered_indices next_id) asched
      else if ar_name routine = ''Constant training'' then
        train_months st squad_size [0..<12] asched
      else if ar_name routine = ''Ready'' then
        Inr (map (\<lambda>e. e\<lparr>sse_sleep_mode := 2, sse_uniform_mode := 0\<rparr>) asched)
      else
        Inr (map (\<lambda>e. e\<lparr>sse_sleep_mode := 0, sse_uniform_mode := 0\<rparr>) asched))"

fun build_schedule ::
  "state \<Rightarrow> int32_t \<Rightarrow> int16_t \<Rightarrow> alert_routine list \<Rightarrow> fault + squad_schedule_entry list list" where
  "build_schedule st next_id squad_size [] = Inr []"
| "build_schedule st next_id squad_size (routine # routines) =
     (case routine_schedule st next_id squad_size routine of
        Inl f \<Rightarrow> Inl f
      | Inr asched \<Rightarrow>
          (case build_schedule st next_id squad_size routines of
             Inl f \<Rightarrow> Inl f
           | Inr rest \<Rightarrow> Inr (asched # rest)))"

text \<open>Lines 85 to 212: the new squad, not yet visible to the host.\<close>

definition construct_squad ::
  "state \<Rightarrow> int32_t \<Rightarrow> plotinfost \<Rightarrow> entity_position_assignment \<Rightarrow> entity_position
     \<Rightarrow> fault + squad" where
  "construct_squad st next_id pinfo found_assignment corresponding_position =
     (let squad_size = ep_squad_size corresponding_position in
      case build_schedule st next_id squad_size (pi_routines pinfo) of
        Inl f \<Rightarrow> Inl f
      | Inr sched \<Rightarrow>
          Inr \<lparr>sq_id = next_id,
               sq_alias = [],
               sq_name = empty_squad_name,
               sq_cur_routine_idx = 0,
               sq_uniform_priority = next_id + 1,
               sq_activity = - 1,
               sq_carry_food = 2,
               sq_carry_water = 1,
               sq_entity_id = pi_group_id pinfo,
               sq_leader_position = ep_id corresponding_position,
               sq_leader_assignment = epa_id found_assignment,
               sq_ammo_update = 0,
               sq_positions = replicate (nat (sint squad_size)) \<lparr>sp_flags = 0\<rparr>,
               sq_schedule = sched,
               sq_rooms = []\<rparr>)"

text \<open>Lines 216 to 219, one definition per statement.\<close>

definition commit_next_id :: "state \<Rightarrow> fault + state" where
  "commit_next_id st =
     (case squad_next_id st of
        None \<Rightarrow> Inl NullDeref
      | Some c \<Rightarrow> Inr (st\<lparr>squad_next_id := Some (c + 1)\<rparr>))"

definition commit_fort_squads :: "int32_t \<Rightarrow> squad \<Rightarrow> state \<Rightarrow> state" where
  "commit_fort_squads group_id result st =
     st\<lparr>entities :=
          update_first (\<lambda>e. he_id e = group_id)
            (\<lambda>e. e\<lparr>he_squads := he_squads e @ [sq_id result]\<rparr>) (entities st)\<rparr>"

definition commit_world_squads :: "squad \<Rightarrow> state \<Rightarrow> fault + state" where
  "commit_world_squads result st =
     (case world st of
        None \<Rightarrow> Inl NullDeref
      | Some w \<Rightarrow> Inr (st\<lparr>world := Some (w\<lparr>squads_all := squads_all w @ [result]\<rparr>)\<rparr>))"

definition commit_assignment :: "int32_t \<Rightarrow> int32_t \<Rightarrow> squad \<Rightarrow> state \<Rightarrow> state" where
  "commit_assignment group_id assignment_id result st =
     st\<lparr>entities :=
          update_first (\<lambda>e. he_id e = group_id)
            (\<lambda>e. e\<lparr>he_assignments :=
                      update_first (\<lambda>a. epa_id a = assignment_id)
                        (\<lambda>a. a\<lparr>epa_squad_id := sq_id result\<rparr>) (he_assignments e)\<rparr>)
            (entities st)\<rparr>"

text \<open>
  The four statements in the order of the source. \<open>commit_steps\<close> gives the state
  after each of them, so that the order of the writes can be read off; the state the
  commit leaves is the last one.
\<close>

definition commit_steps ::
  "int32_t \<Rightarrow> int32_t \<Rightarrow> squad \<Rightarrow> state \<Rightarrow> fault + state list" where
  "commit_steps group_id assignment_id result st =
     (case commit_next_id st of
        Inl f \<Rightarrow> Inl f
      | Inr st1 \<Rightarrow>
          let st2 = commit_fort_squads group_id result st1 in
          (case commit_world_squads result st2 of
             Inl f \<Rightarrow> Inl f
           | Inr st3 \<Rightarrow>
               Inr [st1, st2, st3, commit_assignment group_id assignment_id result st3]))"

definition commit :: "int32_t \<Rightarrow> int32_t \<Rightarrow> squad \<Rightarrow> state \<Rightarrow> fault + state" where
  "commit group_id assignment_id result st =
     (case commit_steps group_id assignment_id result st of
        Inl f \<Rightarrow> Inl f
      | Inr states \<Rightarrow> Inr (last states))"

text \<open>
  The result is the returned pointer (\<open>None\<close> for \<open>nullptr\<close>) and the state the
  call leaves, or the fault the call runs into.
\<close>

definition makeSquad :: "state \<Rightarrow> int32_t \<Rightarrow> fault + (squad option \<times> state)" where
  "makeSquad st assignment_id =
     (case (squad_next_id st, plotinfo st) of
        (None, _) \<Rightarrow> Inr (None, st)
      | (_, None) \<Rightarrow> Inr (None, st)
      | (Some next_id, Some pinfo) \<Rightarrow>
          (case historical_entity_find st (pi_group_id pinfo) of
             None \<Rightarrow> Inl NullDeref
           | Some fort \<Rightarrow>
               (case find_first (\<lambda>a. epa_id a = assignment_id) (he_assignments fort) of
                  None \<Rightarrow> Inr (None, st)
                | Some found_assignment \<Rightarrow>
                    if epa_squad_id found_assignment \<noteq> - 1 then Inr (None, st)
                    else
                      (case find_first (\<lambda>p. ep_id p = epa_position_id found_assignment)
                              (he_own fort) of
                         None \<Rightarrow> Inr (None, st)
                       | Some corresponding_position \<Rightarrow>
                           (case construct_squad st next_id pinfo found_assignment
                                   corresponding_position of
                              Inl f \<Rightarrow> Inl f
                            | Inr result \<Rightarrow>
                                (case commit (pi_group_id pinfo) assignment_id result st of
                                   Inl f \<Rightarrow> Inl f
                                 | Inr st' \<Rightarrow> Inr (Some result, st')))))))"

section \<open>Orderings of the room lists and example states\<close>

text \<open>
  The two lists of a room association are ordered by their key read as a signed number,
  as the comparators of the two sorts read it. The example states are the inputs at which
  the results below are instantiated.
\<close>

definition rooms_sorted :: "T_rooms list \<Rightarrow> bool" where
  "rooms_sorted rooms = sorted (map (\<lambda>r. sint (rm_building_id r)) rooms)"

definition room_info_sorted :: "T_squad_room_info list \<Rightarrow> bool" where
  "room_info_sorted infos = sorted (map (\<lambda>r. sint (sri_squad_id r)) infos)"

definition ex_squad :: "int32_t \<Rightarrow> string \<Rightarrow> T_rooms list \<Rightarrow> squad" where
  "ex_squad i a rooms =
     \<lparr>sq_id = i, sq_alias = a, sq_name = empty_squad_name, sq_cur_routine_idx = 0,
      sq_uniform_priority = i + 1, sq_activity = - 1, sq_carry_food = 2, sq_carry_water = 1,
      sq_entity_id = 10, sq_leader_position = 4, sq_leader_assignment = 7, sq_ammo_update = 0,
      sq_positions = [], sq_schedule = [], sq_rooms = rooms\<rparr>"

definition ex_zone :: "int32_t \<Rightarrow> T_squad_room_info list \<Rightarrow> building_civzonest" where
  "ex_zone i infos = \<lparr>bz_id = i, bz_squad_room_info = infos\<rparr>"

definition ex_rooms_state :: "T_rooms list \<Rightarrow> T_squad_room_info list \<Rightarrow> state" where
  "ex_rooms_state rooms infos =
     \<lparr>squad_next_id = Some 5, plotinfo = None, cur_year = Some 100, cur_year_tick = Some 20,
      world = Some \<lparr>squads_all = [ex_squad 3 ''Axes'' rooms, ex_squad 4 [] []]\<rparr>,
      entities = [],
      buildings = [Building_other 5, Building_civzonest (ex_zone 8 infos),
                   Building_civzonest (ex_zone 9 [])]\<rparr>"

definition ex_translate :: "language_name \<Rightarrow> bool \<Rightarrow> string" where
  "ex_translate n in_english = (if in_english then ''The Squad'' else ''Squad'')"

definition ex_fort :: "int16_t \<Rightarrow> int32_t \<Rightarrow> int32_t list \<Rightarrow> historical_entity" where
  "ex_fort sz ref squads =
     \<lparr>he_id = 10,
      he_own = [\<lparr>ep_id = 4, ep_squad_size = sz\<rparr>],
      he_assignments =
        [\<lparr>epa_id = 7, epa_position_id = 4, epa_squad_id = ref\<rparr>,
         \<lparr>epa_id = 8, epa_position_id = 5, epa_squad_id = - 1\<rparr>,
         \<lparr>epa_id = 9, epa_position_id = 4, epa_squad_id = 2\<rparr>],
      he_squads = squads\<rparr>"

definition ex_plotinfo :: "string list \<Rightarrow> plotinfost" where
  "ex_plotinfo names = \<lparr>pi_group_id = 10, pi_routines = map (\<lambda>n. \<lparr>ar_name = n\<rparr>) names\<rparr>"

definition ex_make_state ::
  "int32_t \<Rightarrow> historical_entity list \<Rightarrow> string list \<Rightarrow> squad list \<Rightarrow> state" where
  "ex_make_state c ents names squads =
     \<lparr>squad_next_id = Some c, plotinfo = Some (ex_plotinfo names),
      cur_year = Some 100, cur_year_tick = Some 20,
      world = Some \<lparr>squads_all = squads\<rparr>, entities = ents, buildings = []\<rparr>"

section \<open>Searching and writing in place\<close>

lemma find_first_None_iff: "find_first P xs = None \<longleftrightarrow> (\<forall>x\<in>set xs. \<not> P x)"
  by (induction xs) auto

lemma find_first_SomeD: "find_first P xs = Some x \<Longrightarrow> P x \<and> x \<in> set xs"
  by (induction xs) (auto split: if_splits)

lemma find_first_update_first:
  "find_first P xs = Some x \<Longrightarrow> P (f x) \<Longrightarrow> find_first P (update_first P f xs) = Some (f x)"
  by (induction xs) (auto split: if_splits)

lemma update_first_None: "find_first P xs = None \<Longrightarrow> update_first P f xs = xs"
  by (induction xs) (auto split: if_splits)

lemma map_update_first:
  "(\<And>x. P x \<Longrightarrow> k (f x) = k x) \<Longrightarrow> map k (update_first P f xs) = map k xs"
  by (induction xs) auto

lemma mset_update_first:
  "find_first P xs = Some x \<Longrightarrow> mset (update_first P f xs) = mset xs - {#x#} + {#f x#}"
  by (induction xs) (auto split: if_splits dest: find_first_SomeD)

lemma update_first_mem:
  "find_first P xs = Some x \<Longrightarrow> f x \<in> set (update_first P f xs)"
  by (induction xs) (auto split: if_splits)

lemma erase_rooms_filter: "erase_rooms c rs = filter (\<lambda>r. rm_building_id r \<noteq> c) rs"
  by (induction rs) auto

lemma find_first_unique:
  "x \<in> set xs \<Longrightarrow> P x \<Longrightarrow> (\<And>y. y \<in> set xs \<Longrightarrow> P y \<Longrightarrow> y = x) \<Longrightarrow> find_first P xs = Some x"
proof (induction xs)
  case Nil
  then show ?case by simp
next
  case (Cons a xs)
  show ?case
  proof (cases "P a")
    case True
    have "a = x" using Cons.prems(3) [of a] True by simp
    with True show ?thesis by simp
  next
    case False
    have mem: "x \<in> set xs" using Cons.prems(1) Cons.prems(2) False by auto
    have "find_first P xs = Some x"
    proof (rule Cons.IH)
      show "x \<in> set xs" by (rule mem)
      show "P x" by (rule Cons.prems(2))
      fix y assume "y \<in> set xs" and "P y"
      then show "y = x" using Cons.prems(3) [of y] by simp
    qed
    with False show ?thesis by simp
  qed
qed

section \<open>Room synchronisation\<close>

lemma cast_civzonest_Some:
  "strict_virtual_cast_civzonest b = Some z \<longleftrightarrow> b = Some (Building_civzonest z)"
  by (cases b rule: strict_virtual_cast_civzonest.cases) auto

lemma squad_find_after:
  assumes "squad_find st sid = Some squad" and "sq_id s' = sid"
  shows "squad_find (zone_store zid z (squad_store sid s' st)) sid = Some s'"
  using assms
  by (auto simp: squad_find_def zone_store_def squad_store_def find_first_update_first
      split: option.splits)

lemma building_find_after:
  assumes "building_find st zid = Some b" and "bz_id z = zid"
  shows "building_find (zone_store zid z (squad_store sid s' st)) zid = Some (Building_civzonest z)"
  using assms
  by (auto simp: building_find_def zone_store_def squad_store_def find_first_update_first
      split: option.splits)

lemma resolved_ids:
  assumes "squad_find st sid = Some squad" and "building_find st zid = Some (Building_civzonest zone)"
  shows "sq_id squad = sid" and "bz_id zone = zid"
  using assms
  by (auto simp: squad_find_def building_find_def split: option.splits dest!: find_first_SomeD)

lemma update_resolved:
  assumes "squad_find st sid = Some squad"
    and "building_find st zid = Some (Building_civzonest zone)"
  shows "updateRoomAssignments st sid zid flags =
    (let room_from_squad = find_first (\<lambda>r. rm_building_id r = zid) (sq_rooms squad);
         room_from_building = find_first (\<lambda>r. sri_squad_id r = sid) (bz_squad_room_info zone)
     in
     if flags = 0 \<and> room_from_squad = None \<and> room_from_building = None then st
     else
       zone_store zid
         (zone\<lparr>bz_squad_room_info :=
            update_first (\<lambda>r. sri_squad_id r = sid) (\<lambda>r. r\<lparr>sri_mode := flags\<rparr>)
              (if room_from_building = None
               then sort_squad_room_info
                      (bz_squad_room_info zone @ [new_T_squad_room_info\<lparr>sri_squad_id := sid\<rparr>])
               else bz_squad_room_info zone)\<rparr>)
         (squad_store sid
            (squad\<lparr>sq_rooms :=
               (if flags = 0 \<and> room_from_squad = None then sq_rooms squad
                else (if flags = 0 then erase_rooms zid else (\<lambda>rs. rs))
                   (update_first (\<lambda>r. rm_building_id r = zid) (\<lambda>r. r\<lparr>rm_mode := flags\<rparr>)
                     (if room_from_squad = None
                      then sort_rooms (sq_rooms squad @ [new_T_rooms\<lparr>rm_building_id := zid\<rparr>])
                      else sq_rooms squad)))\<rparr>) st))"
  unfolding updateRoomAssignments_def Let_def assms strict_virtual_cast_civzonest.simps
    prod.case option.case
  by (cases "flags = 0"; cases "find_first (\<lambda>r. rm_building_id r = zid) (sq_rooms squad)";
      cases "find_first (\<lambda>r. sri_squad_id r = sid) (bz_squad_room_info zone)")
     simp_all

lemma update_first_hits:
  "\<exists>x\<in>set xs. P x \<Longrightarrow> \<exists>x\<in>set xs. P x \<and> f x \<in> set (update_first P f xs)"
  by (induction xs) auto

lemma filter_update_first:
  "(\<And>x. P x \<Longrightarrow> P (f x)) \<Longrightarrow>
   filter (\<lambda>x. \<not> P x) (update_first P f xs) = filter (\<lambda>x. \<not> P x) xs"
  by (induction xs) auto

lemma rooms_sorted_sort: "rooms_sorted (sort_rooms xs)"
  by (simp add: rooms_sorted_def sort_rooms_def)

lemma room_info_sorted_sort: "room_info_sorted (sort_squad_room_info xs)"
  by (simp add: room_info_sorted_def sort_squad_room_info_def)

lemma rooms_sorted_set_mode:
  "rooms_sorted (update_first P (\<lambda>r. r\<lparr>rm_mode := m\<rparr>) xs) = rooms_sorted xs"
  by (simp add: rooms_sorted_def map_update_first)

lemma room_info_sorted_set_mode:
  "room_info_sorted (update_first P (\<lambda>r. r\<lparr>sri_mode := m\<rparr>) xs) = room_info_sorted xs"
  by (simp add: room_info_sorted_def map_update_first)

lemma squad_side_after:
  "\<exists>r\<in>set (update_first (\<lambda>r. rm_building_id r = zid) (\<lambda>r. r\<lparr>rm_mode := flags\<rparr>)
       (if find_first (\<lambda>r. rm_building_id r = zid) rooms = None
        then sort_rooms (rooms @ [new_T_rooms\<lparr>rm_building_id := zid\<rparr>]) else rooms)).
     rm_building_id r = zid \<and> rm_mode r = flags"
proof -
  let ?P = "\<lambda>r. rm_building_id r = zid"
  let ?xs = "if find_first ?P rooms = None
        then sort_rooms (rooms @ [new_T_rooms\<lparr>rm_building_id := zid\<rparr>]) else rooms"
  have "\<exists>x\<in>set ?xs. ?P x"
    by (auto simp: sort_rooms_def find_first_None_iff)
  from update_first_hits [OF this, of "\<lambda>r. r\<lparr>rm_mode := flags\<rparr>"]
  obtain x where "?P x" and "x\<lparr>rm_mode := flags\<rparr> \<in> set (update_first ?P (\<lambda>r. r\<lparr>rm_mode := flags\<rparr>) ?xs)"
    by blast
  then show ?thesis by (intro bexI [of _ "x\<lparr>rm_mode := flags\<rparr>"]) simp_all
qed

lemma zone_side_after:
  "\<exists>r\<in>set (update_first (\<lambda>r. sri_squad_id r = sid) (\<lambda>r. r\<lparr>sri_mode := flags\<rparr>)
       (if find_first (\<lambda>r. sri_squad_id r = sid) infos = None
        then sort_squad_room_info (infos @ [new_T_squad_room_info\<lparr>sri_squad_id := sid\<rparr>])
        else infos)).
     sri_squad_id r = sid \<and> sri_mode r = flags"
proof -
  let ?P = "\<lambda>r. sri_squad_id r = sid"
  let ?xs = "if find_first ?P infos = None
        then sort_squad_room_info (infos @ [new_T_squad_room_info\<lparr>sri_squad_id := sid\<rparr>])
        else infos"
  have "\<exists>x\<in>set ?xs. ?P x"
    by (auto simp: sort_squad_room_info_def find_first_None_iff)
  from update_first_hits [OF this, of "\<lambda>r. r\<lparr>sri_mode := flags\<rparr>"]
  obtain x where "?P x" and "x\<lparr>sri_mode := flags\<rparr> \<in> set (update_first ?P (\<lambda>r. r\<lparr>sri_mode := flags\<rparr>) ?xs)"
    by blast
  then show ?thesis by (intro bexI [of _ "x\<lparr>sri_mode := flags\<rparr>"]) simp_all
qed

lemma zone_side_created:
  assumes none: "find_first (\<lambda>r. sri_squad_id r = sid) infos = None"
  shows "mset (update_first (\<lambda>r. sri_squad_id r = sid) (\<lambda>r. r\<lparr>sri_mode := flags\<rparr>)
            (sort_squad_room_info (infos @ [new_T_squad_room_info\<lparr>sri_squad_id := sid\<rparr>])))
         = mset infos + {#\<lparr>sri_squad_id = sid, sri_mode = flags\<rparr>#}"
proof -
  let ?P = "\<lambda>r. sri_squad_id r = sid"
  let ?n = "new_T_squad_room_info\<lparr>sri_squad_id := sid\<rparr>"
  let ?xs = "sort_squad_room_info (infos @ [?n])"
  have set_xs: "set ?xs = insert ?n (set infos)"
    by (simp add: sort_squad_room_info_def)
  have mset_xs: "mset ?xs = mset infos + {#?n#}"
    by (simp add: sort_squad_room_info_def)
  have "find_first ?P ?xs = Some ?n"
  proof (rule find_first_unique)
    show "?n \<in> set ?xs" by (simp add: set_xs)
    show "sri_squad_id ?n = sid" by simp
    fix y assume "y \<in> set ?xs" and "sri_squad_id y = sid"
    then show "y = ?n" using none by (auto simp: set_xs find_first_None_iff)
  qed
  then have "mset (update_first ?P (\<lambda>r. r\<lparr>sri_mode := flags\<rparr>) ?xs)
      = mset ?xs - {#?n#} + {#?n\<lparr>sri_mode := flags\<rparr>#}"
    by (rule mset_update_first)
  also have "mset ?xs - {#?n#} = mset infos"
    by (simp add: mset_xs)
  also have "?n\<lparr>sri_mode := flags\<rparr> = \<lparr>sri_squad_id = sid, sri_mode = flags\<rparr>"
    by (simp add: new_T_squad_room_info_def)
  finally show ?thesis .
qed

subsection \<open>The example state of the room operations\<close>

lemma ex_squad_find_3: "squad_find (ex_rooms_state rooms infos) 3 = Some (ex_squad 3 ''Axes'' rooms)"
  by (simp add: squad_find_def ex_rooms_state_def ex_squad_def)

lemma ex_squad_find_4: "squad_find (ex_rooms_state rooms infos) 4 = Some (ex_squad 4 [] [])"
  by (simp add: squad_find_def ex_rooms_state_def ex_squad_def)

lemma ex_squad_find_6: "squad_find (ex_rooms_state rooms infos) 6 = None"
  by (simp add: squad_find_def ex_rooms_state_def ex_squad_def)

lemma ex_building_find_8:
  "building_find (ex_rooms_state rooms infos) 8 = Some (Building_civzonest (ex_zone 8 infos))"
  by (simp add: building_find_def ex_rooms_state_def ex_zone_def)

lemma ex_building_find_9:
  "building_find (ex_rooms_state rooms infos) 9 = Some (Building_civzonest (ex_zone 9 []))"
  by (simp add: building_find_def ex_rooms_state_def ex_zone_def)

lemma ex_building_find_5:
  "building_find (ex_rooms_state rooms infos) 5 = Some (Building_other 5)"
  by (simp add: building_find_def ex_rooms_state_def ex_zone_def)

lemma ex_building_find_7:
  "building_find (ex_rooms_state rooms infos) 7 = None"
  by (simp add: building_find_def ex_rooms_state_def ex_zone_def)

section \<open>Name resolution\<close>

text \<open>
  Claim C5. If no squad has the id, \<open>getSquadName\<close> returns the empty string; if
  the squad exists and its alias is not empty, it returns the alias, whatever the name is;
  otherwise it returns what the translation service makes of the squad's name (with the
  flag \<open>true\<close>). In all three cases the state is returned as it was.
\<close>

theorem getSquadName_result:
  "(squad_find st squad_id = None \<longrightarrow> getSquadName T st squad_id = ('''', st)) \<and>
   (\<forall>squad. squad_find st squad_id = Some squad \<and> sq_alias squad \<noteq> [] \<longrightarrow>
      getSquadName T st squad_id = (sq_alias squad, st)) \<and>
   (\<forall>squad. squad_find st squad_id = Some squad \<and> sq_alias squad = [] \<longrightarrow>
      getSquadName T st squad_id = (T (sq_name squad) True, st))"
  by (simp add: getSquadName_def)

text \<open>
  The theorem of claim C5 at an unknown id, at a squad with an alias and at a squad
  without one.
\<close>

theorem getSquadName_result_witness:
  "getSquadName ex_translate (ex_rooms_state [] []) 6 = ('''', ex_rooms_state [] []) \<and>
   getSquadName ex_translate (ex_rooms_state [] []) 3 = (''Axes'', ex_rooms_state [] []) \<and>
   getSquadName ex_translate (ex_rooms_state [] []) 4 = (''The Squad'', ex_rooms_state [] [])"
  using getSquadName_result [of "ex_rooms_state [] []" 6 ex_translate]
    getSquadName_result [of "ex_rooms_state [] []" 3 ex_translate]
    getSquadName_result [of "ex_rooms_state [] []" 4 ex_translate]
  by (simp add: ex_squad_find_3 ex_squad_find_4 ex_squad_find_6 ex_squad_def ex_translate_def)

section \<open>Results on room synchronisation\<close>

text \<open>
  Claim C8. \<open>updateRoomAssignments\<close> returns the state unchanged when the squad id
  resolves to no squad, when the building id resolves to no building or to a building that
  is not a civilian zone, and when the flags are all-zero and neither the squad's room
  list nor the zone's room-info list holds a record of the association.
\<close>

theorem updateRoomAssignments_no_mutation:
  assumes "squad_find st squad_id = None
     \<or> building_find st civzone_id = None
     \<or> (\<exists>i. building_find st civzone_id = Some (Building_other i))
     \<or> (flags = 0 \<and>
        (\<exists>squad zone. squad_find st squad_id = Some squad \<and>
           building_find st civzone_id = Some (Building_civzonest zone) \<and>
           (\<forall>r\<in>set (sq_rooms squad). rm_building_id r \<noteq> civzone_id) \<and>
           (\<forall>r\<in>set (bz_squad_room_info zone). sri_squad_id r \<noteq> squad_id)))"
  shows "updateRoomAssignments st squad_id civzone_id flags = st"
  using assms
proof (elim disjE conjE exE)
  assume "squad_find st squad_id = None"
  then show ?thesis by (simp add: updateRoomAssignments_def)
next
  assume "building_find st civzone_id = None"
  then show ?thesis by (simp add: updateRoomAssignments_def split: option.splits)
next
  fix i assume "building_find st civzone_id = Some (Building_other i)"
  then show ?thesis by (simp add: updateRoomAssignments_def split: option.splits)
next
  fix squad zone
  assume "flags = 0" and sq: "squad_find st squad_id = Some squad"
    and zn: "building_find st civzone_id = Some (Building_civzonest zone)"
    and "\<forall>r\<in>set (sq_rooms squad). rm_building_id r \<noteq> civzone_id"
    and "\<forall>r\<in>set (bz_squad_room_info zone). sri_squad_id r \<noteq> squad_id"
  then show ?thesis
    by (simp add: update_resolved [OF sq zn] find_first_None_iff)
qed

text \<open>
  The theorem of claim C8 at an unknown squad, an unknown building, a building of
  another kind, and all-zero flags without an association.
\<close>

theorem updateRoomAssignments_no_mutation_witness:
  "updateRoomAssignments (ex_rooms_state [] []) 6 8 1 = ex_rooms_state [] [] \<and>
   updateRoomAssignments (ex_rooms_state [] []) 3 7 1 = ex_rooms_state [] [] \<and>
   updateRoomAssignments (ex_rooms_state [] []) 3 5 1 = ex_rooms_state [] [] \<and>
   updateRoomAssignments (ex_rooms_state [] []) 3 8 0 = ex_rooms_state [] []"
proof (intro conjI)
  show "updateRoomAssignments (ex_rooms_state [] []) 6 8 1 = ex_rooms_state [] []"
    by (rule updateRoomAssignments_no_mutation) (simp add: ex_squad_find_6)
  show "updateRoomAssignments (ex_rooms_state [] []) 3 7 1 = ex_rooms_state [] []"
    by (rule updateRoomAssignments_no_mutation) (simp add: ex_building_find_7)
  show "updateRoomAssignments (ex_rooms_state [] []) 3 5 1 = ex_rooms_state [] []"
    by (rule updateRoomAssignments_no_mutation) (simp add: ex_building_find_5)
  show "updateRoomAssignments (ex_rooms_state [] []) 3 8 0 = ex_rooms_state [] []"
    by (rule updateRoomAssignments_no_mutation)
      (simp add: ex_squad_find_3 ex_building_find_8 ex_squad_def ex_zone_def)
qed

text \<open>
  Claim C6. For non-zero flags, when the squad and the civilian zone both resolve, after
  the call the squad's room list holds a record for the building id and the zone's
  room-info list holds a record for the squad id, both with exactly the given flags, and
  the two lists, which the data model keeps ordered by their keys, are ordered after the
  call: the squad's room list is ordered by building id if it was ordered before (or the
  call created the squad-side record, which sorts the whole list), and likewise the zone's
  room-info list by squad id.
\<close>

theorem updateRoomAssignments_nonzero:
  assumes sq: "squad_find st squad_id = Some squad"
    and zn: "building_find st civzone_id = Some (Building_civzonest zone)"
    and nz: "flags \<noteq> 0"
  shows "\<exists>squad' zone'.
      squad_find (updateRoomAssignments st squad_id civzone_id flags) squad_id = Some squad' \<and>
      building_find (updateRoomAssignments st squad_id civzone_id flags) civzone_id
        = Some (Building_civzonest zone') \<and>
      (\<exists>r\<in>set (sq_rooms squad'). rm_building_id r = civzone_id \<and> rm_mode r = flags) \<and>
      (\<exists>r\<in>set (bz_squad_room_info zone'). sri_squad_id r = squad_id \<and> sri_mode r = flags) \<and>
      (rooms_sorted (sq_rooms squad)
         \<or> find_first (\<lambda>r. rm_building_id r = civzone_id) (sq_rooms squad) = None
       \<longrightarrow> rooms_sorted (sq_rooms squad')) \<and>
      (room_info_sorted (bz_squad_room_info zone)
         \<or> find_first (\<lambda>r. sri_squad_id r = squad_id) (bz_squad_room_info zone) = None
       \<longrightarrow> room_info_sorted (bz_squad_room_info zone'))"
proof -
  define R where "R =
    update_first (\<lambda>r. rm_building_id r = civzone_id) (\<lambda>r. r\<lparr>rm_mode := flags\<rparr>)
      (if find_first (\<lambda>r. rm_building_id r = civzone_id) (sq_rooms squad) = None
       then sort_rooms (sq_rooms squad @ [new_T_rooms\<lparr>rm_building_id := civzone_id\<rparr>])
       else sq_rooms squad)"
  define I where "I =
    update_first (\<lambda>r. sri_squad_id r = squad_id) (\<lambda>r. r\<lparr>sri_mode := flags\<rparr>)
      (if find_first (\<lambda>r. sri_squad_id r = squad_id) (bz_squad_room_info zone) = None
       then sort_squad_room_info
              (bz_squad_room_info zone @ [new_T_squad_room_info\<lparr>sri_squad_id := squad_id\<rparr>])
       else bz_squad_room_info zone)"
  have ids: "sq_id squad = squad_id" "bz_id zone = civzone_id"
    using resolved_ids [OF sq zn] by simp_all
  have st': "updateRoomAssignments st squad_id civzone_id flags =
      zone_store civzone_id (zone\<lparr>bz_squad_room_info := I\<rparr>)
        (squad_store squad_id (squad\<lparr>sq_rooms := R\<rparr>) st)"
    using nz by (simp add: update_resolved [OF sq zn] R_def I_def)
  have 1: "squad_find (updateRoomAssignments st squad_id civzone_id flags) squad_id
      = Some (squad\<lparr>sq_rooms := R\<rparr>)"
    unfolding st' by (rule squad_find_after [OF sq]) (simp add: ids)
  have 2: "building_find (updateRoomAssignments st squad_id civzone_id flags) civzone_id
      = Some (Building_civzonest (zone\<lparr>bz_squad_room_info := I\<rparr>))"
    unfolding st' by (rule building_find_after [OF zn]) (simp add: ids)
  have 3: "\<exists>r\<in>set R. rm_building_id r = civzone_id \<and> rm_mode r = flags"
    unfolding R_def by (rule squad_side_after)
  have 4: "\<exists>r\<in>set I. sri_squad_id r = squad_id \<and> sri_mode r = flags"
    unfolding I_def by (rule zone_side_after)
  have 5: "rooms_sorted (sq_rooms squad)
         \<or> find_first (\<lambda>r. rm_building_id r = civzone_id) (sq_rooms squad) = None
       \<longrightarrow> rooms_sorted R"
    unfolding R_def by (simp add: rooms_sorted_set_mode rooms_sorted_sort)
  have 6: "room_info_sorted (bz_squad_room_info zone)
         \<or> find_first (\<lambda>r. sri_squad_id r = squad_id) (bz_squad_room_info zone) = None
       \<longrightarrow> room_info_sorted I"
    unfolding I_def by (simp add: room_info_sorted_set_mode room_info_sorted_sort)
  show ?thesis
    apply (rule exI [of _ "squad\<lparr>sq_rooms := R\<rparr>"])
    apply (rule exI [of _ "zone\<lparr>bz_squad_room_info := I\<rparr>"])
    using 1 2 3 4 5 6 by simp
qed

text \<open>
  Claim C7. For all-zero flags on a squad and zone whose association exists on both
  sides with non-zero flags, after the call the squad's room list holds no record for the
  building id (every match is removed, the other records stay as they were), while the
  zone's room-info list still has its records, one of them for the squad id with all-zero
  flags.
\<close>

theorem updateRoomAssignments_revoke:
  assumes sq: "squad_find st squad_id = Some squad"
    and zn: "building_find st civzone_id = Some (Building_civzonest zone)"
    and squad_side: "\<exists>r\<in>set (sq_rooms squad). rm_building_id r = civzone_id \<and> rm_mode r \<noteq> 0"
    and zone_side: "\<exists>r\<in>set (bz_squad_room_info zone). sri_squad_id r = squad_id \<and> sri_mode r \<noteq> 0"
  shows "\<exists>squad' zone'.
      squad_find (updateRoomAssignments st squad_id civzone_id 0) squad_id = Some squad' \<and>
      building_find (updateRoomAssignments st squad_id civzone_id 0) civzone_id
        = Some (Building_civzonest zone') \<and>
      (\<forall>r\<in>set (sq_rooms squad'). rm_building_id r \<noteq> civzone_id) \<and>
      sq_rooms squad' = filter (\<lambda>r. rm_building_id r \<noteq> civzone_id) (sq_rooms squad) \<and>
      (\<exists>r\<in>set (bz_squad_room_info zone'). sri_squad_id r = squad_id \<and> sri_mode r = 0) \<and>
      map sri_squad_id (bz_squad_room_info zone') = map sri_squad_id (bz_squad_room_info zone)"
proof -
  define R where "R =
    erase_rooms civzone_id
      (update_first (\<lambda>r. rm_building_id r = civzone_id) (\<lambda>r. r\<lparr>rm_mode := 0\<rparr>) (sq_rooms squad))"
  define I where "I =
    update_first (\<lambda>r. sri_squad_id r = squad_id) (\<lambda>r. r\<lparr>sri_mode := 0\<rparr>)
      (bz_squad_room_info zone)"
  have ids: "sq_id squad = squad_id" "bz_id zone = civzone_id"
    using resolved_ids [OF sq zn] by simp_all
  obtain r0 where r0: "find_first (\<lambda>r. rm_building_id r = civzone_id) (sq_rooms squad) = Some r0"
    using squad_side by (cases "find_first (\<lambda>r. rm_building_id r = civzone_id) (sq_rooms squad)")
      (auto simp: find_first_None_iff)
  obtain i0 where i0:
    "find_first (\<lambda>r. sri_squad_id r = squad_id) (bz_squad_room_info zone) = Some i0"
    using zone_side
    by (cases "find_first (\<lambda>r. sri_squad_id r = squad_id) (bz_squad_room_info zone)")
      (auto simp: find_first_None_iff)
  have st': "updateRoomAssignments st squad_id civzone_id 0 =
      zone_store civzone_id (zone\<lparr>bz_squad_room_info := I\<rparr>)
        (squad_store squad_id (squad\<lparr>sq_rooms := R\<rparr>) st)"
    by (simp add: update_resolved [OF sq zn] r0 i0 R_def I_def)
  have 1: "squad_find (updateRoomAssignments st squad_id civzone_id 0) squad_id
      = Some (squad\<lparr>sq_rooms := R\<rparr>)"
    unfolding st' by (rule squad_find_after [OF sq]) (simp add: ids)
  have 2: "building_find (updateRoomAssignments st squad_id civzone_id 0) civzone_id
      = Some (Building_civzonest (zone\<lparr>bz_squad_room_info := I\<rparr>))"
    unfolding st' by (rule building_find_after [OF zn]) (simp add: ids)
  have 3: "R = filter (\<lambda>r. rm_building_id r \<noteq> civzone_id) (sq_rooms squad)"
    unfolding R_def erase_rooms_filter by (rule filter_update_first) simp
  have 4: "\<exists>r\<in>set I. sri_squad_id r = squad_id \<and> sri_mode r = 0"
    using zone_side_after [of squad_id 0 "bz_squad_room_info zone"] by (simp add: i0 I_def)
  have 5: "map sri_squad_id I = map sri_squad_id (bz_squad_room_info zone)"
    unfolding I_def by (rule map_update_first) simp
  show ?thesis
    apply (rule exI [of _ "squad\<lparr>sq_rooms := R\<rparr>"])
    apply (rule exI [of _ "zone\<lparr>bz_squad_room_info := I\<rparr>"])
    using 1 2 4 5 by (simp add: 3)
qed

text \<open>
  Claim C10. For all-zero flags, when the squad's room list holds a record for the
  building and the zone's room-info list holds none for the squad, the call adds one
  zone-side record for the squad with all-zero flags, leaves the zone's list ordered by
  squad id, and removes every squad-side record for the building id: afterwards the only
  record of the association is the zone-side one with all-zero flags.
\<close>

theorem updateRoomAssignments_squad_side_only:
  assumes sq: "squad_find st squad_id = Some squad"
    and zn: "building_find st civzone_id = Some (Building_civzonest zone)"
    and squad_side: "\<exists>r\<in>set (sq_rooms squad). rm_building_id r = civzone_id"
    and zone_side: "\<forall>r\<in>set (bz_squad_room_info zone). sri_squad_id r \<noteq> squad_id"
  shows "\<exists>squad' zone'.
      squad_find (updateRoomAssignments st squad_id civzone_id 0) squad_id = Some squad' \<and>
      building_find (updateRoomAssignments st squad_id civzone_id 0) civzone_id
        = Some (Building_civzonest zone') \<and>
      (\<forall>r\<in>set (sq_rooms squad'). rm_building_id r \<noteq> civzone_id) \<and>
      sq_rooms squad' = filter (\<lambda>r. rm_building_id r \<noteq> civzone_id) (sq_rooms squad) \<and>
      mset (bz_squad_room_info zone')
        = mset (bz_squad_room_info zone) + {#\<lparr>sri_squad_id = squad_id, sri_mode = 0\<rparr>#} \<and>
      room_info_sorted (bz_squad_room_info zone') \<and>
      (\<forall>r\<in>set (bz_squad_room_info zone'). sri_squad_id r = squad_id \<longrightarrow> sri_mode r = 0)"
proof -
  define R where "R =
    erase_rooms civzone_id
      (update_first (\<lambda>r. rm_building_id r = civzone_id) (\<lambda>r. r\<lparr>rm_mode := 0\<rparr>) (sq_rooms squad))"
  define I where "I =
    update_first (\<lambda>r. sri_squad_id r = squad_id) (\<lambda>r. r\<lparr>sri_mode := 0\<rparr>)
      (sort_squad_room_info
         (bz_squad_room_info zone @ [new_T_squad_room_info\<lparr>sri_squad_id := squad_id\<rparr>]))"
  have ids: "sq_id squad = squad_id" "bz_id zone = civzone_id"
    using resolved_ids [OF sq zn] by simp_all
  obtain r0 where r0: "find_first (\<lambda>r. rm_building_id r = civzone_id) (sq_rooms squad) = Some r0"
    using squad_side by (cases "find_first (\<lambda>r. rm_building_id r = civzone_id) (sq_rooms squad)")
      (auto simp: find_first_None_iff)
  have none: "find_first (\<lambda>r. sri_squad_id r = squad_id) (bz_squad_room_info zone) = None"
    using zone_side by (simp add: find_first_None_iff)
  have st': "updateRoomAssignments st squad_id civzone_id 0 =
      zone_store civzone_id (zone\<lparr>bz_squad_room_info := I\<rparr>)
        (squad_store squad_id (squad\<lparr>sq_rooms := R\<rparr>) st)"
    by (simp add: update_resolved [OF sq zn] r0 none R_def I_def)
  have 1: "squad_find (updateRoomAssignments st squad_id civzone_id 0) squad_id
      = Some (squad\<lparr>sq_rooms := R\<rparr>)"
    unfolding st' by (rule squad_find_after [OF sq]) (simp add: ids)
  have 2: "building_find (updateRoomAssignments st squad_id civzone_id 0) civzone_id
      = Some (Building_civzonest (zone\<lparr>bz_squad_room_info := I\<rparr>))"
    unfolding st' by (rule building_find_after [OF zn]) (simp add: ids)
  have 3: "R = filter (\<lambda>r. rm_building_id r \<noteq> civzone_id) (sq_rooms squad)"
    unfolding R_def erase_rooms_filter by (rule filter_update_first) simp
  have 4: "mset I = mset (bz_squad_room_info zone) + {#\<lparr>sri_squad_id = squad_id, sri_mode = 0\<rparr>#}"
    unfolding I_def by (rule zone_side_created [OF none])
  have 5: "room_info_sorted I"
    unfolding I_def by (simp add: room_info_sorted_set_mode room_info_sorted_sort)
  have "set I = insert \<lparr>sri_squad_id = squad_id, sri_mode = 0\<rparr> (set (bz_squad_room_info zone))"
    using arg_cong [OF 4, of set_mset] by simp
  then have 6: "\<forall>r\<in>set I. sri_squad_id r = squad_id \<longrightarrow> sri_mode r = 0"
    using zone_side by auto
  show ?thesis
    apply (rule exI [of _ "squad\<lparr>sq_rooms := R\<rparr>"])
    apply (rule exI [of _ "zone\<lparr>bz_squad_room_info := I\<rparr>"])
    using 1 2 4 5 6 by (simp add: 3)
qed

text \<open>
  The theorem of claim C6 at a squad with a room in zone 8, once given zone 9 with
  flags 5 (both records are created) and once given zone 8 with flags 5 (both records
  exist already).
\<close>

theorem updateRoomAssignments_nonzero_witness:
  "squad_find (ex_rooms_state [\<lparr>rm_building_id = 8, rm_mode = 1\<rparr>] [\<lparr>sri_squad_id = 3, sri_mode = 1\<rparr>]) 3
     = Some (ex_squad 3 ''Axes'' [\<lparr>rm_building_id = 8, rm_mode = 1\<rparr>]) \<and>
   building_find (ex_rooms_state [\<lparr>rm_building_id = 8, rm_mode = 1\<rparr>] [\<lparr>sri_squad_id = 3, sri_mode = 1\<rparr>]) 9
     = Some (Building_civzonest (ex_zone 9 [])) \<and>
   building_find (ex_rooms_state [\<lparr>rm_building_id = 8, rm_mode = 1\<rparr>] [\<lparr>sri_squad_id = 3, sri_mode = 1\<rparr>]) 8
     = Some (Building_civzonest (ex_zone 8 [\<lparr>sri_squad_id = 3, sri_mode = 1\<rparr>])) \<and>
   (5 :: 32 word) \<noteq> 0 \<and>
   rooms_sorted (sq_rooms (ex_squad 3 ''Axes'' [\<lparr>rm_building_id = 8, rm_mode = 1\<rparr>])) \<and>
   room_info_sorted (bz_squad_room_info (ex_zone 9 [])) \<and>
   room_info_sorted (bz_squad_room_info (ex_zone 8 [\<lparr>sri_squad_id = 3, sri_mode = 1\<rparr>])) \<and>
   (\<exists>squad' zone'.
      squad_find (updateRoomAssignments
        (ex_rooms_state [\<lparr>rm_building_id = 8, rm_mode = 1\<rparr>] [\<lparr>sri_squad_id = 3, sri_mode = 1\<rparr>])
        3 9 5) 3 = Some squad' \<and>
      building_find (updateRoomAssignments
        (ex_rooms_state [\<lparr>rm_building_id = 8, rm_mode = 1\<rparr>] [\<lparr>sri_squad_id = 3, sri_mode = 1\<rparr>])
        3 9 5) 9 = Some (Building_civzonest zone') \<and>
      (\<exists>r\<in>set (sq_rooms squad'). rm_building_id r = 9 \<and> rm_mode r = 5) \<and>
      (\<exists>r\<in>set (bz_squad_room_info zone'). sri_squad_id r = 3 \<and> sri_mode r = 5) \<and>
      rooms_sorted (sq_rooms squad') \<and>
      room_info_sorted (bz_squad_room_info zone')) \<and>
   (\<exists>squad' zone'.
      squad_find (updateRoomAssignments
        (ex_rooms_state [\<lparr>rm_building_id = 8, rm_mode = 1\<rparr>] [\<lparr>sri_squad_id = 3, sri_mode = 1\<rparr>])
        3 8 5) 3 = Some squad' \<and>
      building_find (updateRoomAssignments
        (ex_rooms_state [\<lparr>rm_building_id = 8, rm_mode = 1\<rparr>] [\<lparr>sri_squad_id = 3, sri_mode = 1\<rparr>])
        3 8 5) 8 = Some (Building_civzonest zone') \<and>
      (\<exists>r\<in>set (sq_rooms squad'). rm_building_id r = 8 \<and> rm_mode r = 5) \<and>
      (\<exists>r\<in>set (bz_squad_room_info zone'). sri_squad_id r = 3 \<and> sri_mode r = 5) \<and>
      rooms_sorted (sq_rooms squad') \<and>
      room_info_sorted (bz_squad_room_info zone'))"
proof -
  have h1: "squad_find (ex_rooms_state [\<lparr>rm_building_id = 8, rm_mode = 1\<rparr>] [\<lparr>sri_squad_id = 3, sri_mode = 1\<rparr>]) 3
     = Some (ex_squad 3 ''Axes'' [\<lparr>rm_building_id = 8, rm_mode = 1\<rparr>])"
    by (rule ex_squad_find_3)
  have h2: "building_find (ex_rooms_state [\<lparr>rm_building_id = 8, rm_mode = 1\<rparr>] [\<lparr>sri_squad_id = 3, sri_mode = 1\<rparr>]) 9
     = Some (Building_civzonest (ex_zone 9 []))"
    by (rule ex_building_find_9)
  have h2': "building_find (ex_rooms_state [\<lparr>rm_building_id = 8, rm_mode = 1\<rparr>] [\<lparr>sri_squad_id = 3, sri_mode = 1\<rparr>]) 8
     = Some (Building_civzonest (ex_zone 8 [\<lparr>sri_squad_id = 3, sri_mode = 1\<rparr>]))"
    by (rule ex_building_find_8)
  have h3: "(5 :: 32 word) \<noteq> 0" by simp
  have h4: "rooms_sorted (sq_rooms (ex_squad 3 ''Axes'' [\<lparr>rm_building_id = 8, rm_mode = 1\<rparr>]))"
    by (simp add: rooms_sorted_def ex_squad_def)
  have h5: "room_info_sorted (bz_squad_room_info (ex_zone 9 []))"
    by (simp add: room_info_sorted_def ex_zone_def)
  have h6: "room_info_sorted (bz_squad_room_info (ex_zone 8 [\<lparr>sri_squad_id = 3, sri_mode = 1\<rparr>]))"
    by (simp add: room_info_sorted_def ex_zone_def)
  from updateRoomAssignments_nonzero [OF h1 h2 h3] updateRoomAssignments_nonzero [OF h1 h2' h3]
    h1 h2 h2' h3 h4 h5 h6
  show ?thesis
    by simp
qed

text \<open>
  The theorem of claim C7 at squad 3 and zone 8, associated with flags 1 on both sides.
\<close>

theorem updateRoomAssignments_revoke_witness:
  "(\<exists>r\<in>set (sq_rooms (ex_squad 3 ''Axes'' [\<lparr>rm_building_id = 8, rm_mode = 1\<rparr>])).
      rm_building_id r = 8 \<and> rm_mode r \<noteq> 0) \<and>
   (\<exists>r\<in>set (bz_squad_room_info (ex_zone 8 [\<lparr>sri_squad_id = 3, sri_mode = 1\<rparr>])).
      sri_squad_id r = 3 \<and> sri_mode r \<noteq> 0) \<and>
   squad_find (updateRoomAssignments
       (ex_rooms_state [\<lparr>rm_building_id = 8, rm_mode = 1\<rparr>] [\<lparr>sri_squad_id = 3, sri_mode = 1\<rparr>])
       3 8 0) 3 = Some (ex_squad 3 ''Axes'' []) \<and>
   building_find (updateRoomAssignments
       (ex_rooms_state [\<lparr>rm_building_id = 8, rm_mode = 1\<rparr>] [\<lparr>sri_squad_id = 3, sri_mode = 1\<rparr>])
       3 8 0) 8 = Some (Building_civzonest (ex_zone 8 [\<lparr>sri_squad_id = 3, sri_mode = 0\<rparr>]))"
proof -
  have h3: "\<exists>r\<in>set (sq_rooms (ex_squad 3 ''Axes'' [\<lparr>rm_building_id = 8, rm_mode = 1\<rparr>])).
      rm_building_id r = 8 \<and> rm_mode r \<noteq> 0"
    by (simp add: ex_squad_def)
  have h4: "\<exists>r\<in>set (bz_squad_room_info (ex_zone 8 [\<lparr>sri_squad_id = 3, sri_mode = 1\<rparr>])).
      sri_squad_id r = 3 \<and> sri_mode r \<noteq> 0"
    by (simp add: ex_zone_def)
  from updateRoomAssignments_revoke [OF ex_squad_find_3 ex_building_find_8 h3 h4]
  obtain squad' zone' where
    a: "squad_find (updateRoomAssignments
       (ex_rooms_state [\<lparr>rm_building_id = 8, rm_mode = 1\<rparr>] [\<lparr>sri_squad_id = 3, sri_mode = 1\<rparr>])
       3 8 0) 3 = Some squad'"
    and b: "building_find (updateRoomAssignments
       (ex_rooms_state [\<lparr>rm_building_id = 8, rm_mode = 1\<rparr>] [\<lparr>sri_squad_id = 3, sri_mode = 1\<rparr>])
       3 8 0) 8 = Some (Building_civzonest zone')"
    by blast
  have c: "updateRoomAssignments
       (ex_rooms_state [\<lparr>rm_building_id = 8, rm_mode = 1\<rparr>] [\<lparr>sri_squad_id = 3, sri_mode = 1\<rparr>])
       3 8 0 = ex_rooms_state [] [\<lparr>sri_squad_id = 3, sri_mode = 0\<rparr>]"
    by (subst update_resolved [OF ex_squad_find_3 ex_building_find_8])
      (simp add: squad_store_def zone_store_def ex_rooms_state_def ex_squad_def ex_zone_def)
  show ?thesis
    using a b h3 h4 unfolding c by (simp add: ex_squad_find_3 ex_building_find_8)
qed

text \<open>
  The theorem of claim C10 at squad 3 with a room in zone 8 whose room-info list only
  knows squad 4.
\<close>

theorem updateRoomAssignments_squad_side_only_witness:
  "(\<exists>r\<in>set (sq_rooms (ex_squad 3 ''Axes'' [\<lparr>rm_building_id = 8, rm_mode = 1\<rparr>])).
      rm_building_id r = 8) \<and>
   find_first (\<lambda>r. sri_squad_id r = 3)
     (bz_squad_room_info (ex_zone 8 [\<lparr>sri_squad_id = 4, sri_mode = 1\<rparr>])) = None \<and>
   updateRoomAssignments
       (ex_rooms_state [\<lparr>rm_building_id = 8, rm_mode = 1\<rparr>] [\<lparr>sri_squad_id = 4, sri_mode = 1\<rparr>])
       3 8 0
     = ex_rooms_state [] [\<lparr>sri_squad_id = 3, sri_mode = 0\<rparr>, \<lparr>sri_squad_id = 4, sri_mode = 1\<rparr>] \<and>
   (\<exists>squad' zone'.
      squad_find (updateRoomAssignments
       (ex_rooms_state [\<lparr>rm_building_id = 8, rm_mode = 1\<rparr>] [\<lparr>sri_squad_id = 4, sri_mode = 1\<rparr>])
       3 8 0) 3 = Some squad' \<and>
      building_find (updateRoomAssignments
       (ex_rooms_state [\<lparr>rm_building_id = 8, rm_mode = 1\<rparr>] [\<lparr>sri_squad_id = 4, sri_mode = 1\<rparr>])
       3 8 0) 8 = Some (Building_civzonest zone') \<and>
      (\<forall>r\<in>set (sq_rooms squad'). rm_building_id r \<noteq> 8) \<and>
      room_info_sorted (bz_squad_room_info zone') \<and>
      (\<forall>r\<in>set (bz_squad_room_info zone'). sri_squad_id r = 3 \<longrightarrow> sri_mode r = 0))"
proof -
  have h3: "\<exists>r\<in>set (sq_rooms (ex_squad 3 ''Axes'' [\<lparr>rm_building_id = 8, rm_mode = 1\<rparr>])).
      rm_building_id r = 8"
    by (simp add: ex_squad_def)
  have h4: "\<forall>r\<in>set (bz_squad_room_info (ex_zone 8 [\<lparr>sri_squad_id = 4, sri_mode = 1\<rparr>])).
      sri_squad_id r \<noteq> 3"
    by (simp add: ex_zone_def)
  have c: "updateRoomAssignments
       (ex_rooms_state [\<lparr>rm_building_id = 8, rm_mode = 1\<rparr>] [\<lparr>sri_squad_id = 4, sri_mode = 1\<rparr>])
       3 8 0
     = ex_rooms_state [] [\<lparr>sri_squad_id = 3, sri_mode = 0\<rparr>, \<lparr>sri_squad_id = 4, sri_mode = 1\<rparr>]"
    by (subst update_resolved [OF ex_squad_find_3 ex_building_find_8])
      (simp add: squad_store_def zone_store_def ex_rooms_state_def ex_squad_def ex_zone_def
        sort_squad_room_info_def new_T_squad_room_info_def)
  from updateRoomAssignments_squad_side_only [OF ex_squad_find_3 ex_building_find_8 h3 h4]
  have "\<exists>squad' zone'.
      squad_find (updateRoomAssignments
       (ex_rooms_state [\<lparr>rm_building_id = 8, rm_mode = 1\<rparr>] [\<lparr>sri_squad_id = 4, sri_mode = 1\<rparr>])
       3 8 0) 3 = Some squad' \<and>
      building_find (updateRoomAssignments
       (ex_rooms_state [\<lparr>rm_building_id = 8, rm_mode = 1\<rparr>] [\<lparr>sri_squad_id = 4, sri_mode = 1\<rparr>])
       3 8 0) 8 = Some (Building_civzonest zone') \<and>
      (\<forall>r\<in>set (sq_rooms squad'). rm_building_id r \<noteq> 8) \<and>
      room_info_sorted (bz_squad_room_info zone') \<and>
      (\<forall>r\<in>set (bz_squad_room_info zone'). sri_squad_id r = 3 \<longrightarrow> sri_mode r = 0)"
    by blast
  moreover have "find_first (\<lambda>r. sri_squad_id r = 3)
     (bz_squad_room_info (ex_zone 8 [\<lparr>sri_squad_id = 4, sri_mode = 1\<rparr>])) = None"
    by (simp add: ex_zone_def)
  ultimately show ?thesis using h3 c by blast
qed

lemma sint_succ_int32:
  fixes a :: int32_t
  assumes "sint a \<noteq> 2147483647"
  shows "sint (a + 1) = sint a + 1"
proof -
  have "sint a < 2 ^ 31" and "- (2 ^ 31) \<le> sint a"
    using sint_lt [of a] sint_ge [of a] by simp_all
  with assms have "- (2 ^ 31) \<le> sint a + 1" and "sint a + 1 < 2 ^ 31"
    by simp_all
  then have "signed_take_bit 31 (sint a + 1) = sint a + 1"
    by (rule signed_take_bit_int_eq_self)
  then show ?thesis
    by (simp add: sint_word_add)
qed

lemma and_1_odd_sint:
  fixes c :: int32_t
  shows "(c AND 1 \<noteq> 0) = odd (sint c)"
proof -
  have "bit (sint c) 0 = bit c 0"
    by (simp add: bit_sint_iff)
  then have "even (sint c) = even c"
    by (simp add: bit_0)
  moreover have "(c AND 1 = 0) = even c"
    by (simp add: and_one_eq even_iff_mod_2_eq_zero)
  ultimately show ?thesis by simp
qed

lemma sint_scast_squad_size:
  fixes w :: int16_t
  shows "sint (scast w :: int32_t) = sint w"
  by (rule sint_up_scast) (simp add: is_up)

lemma sint_succ_wraps:
  fixes a :: int32_t
  assumes "sint a = 2147483647"
  shows "sint (a + 1) = - 2147483648"
proof -
  have "a = of_int (sint a)" by simp
  then have "a = 2147483647" unfolding assms by simp
  then show ?thesis by simp
qed

subsection \<open>Training orders and schedules\<close>

lemma insert_training_order_Inr:
  "insert_training_order st sz asched m = Inr r \<Longrightarrow>
     0 \<le> sint sz \<and> (\<exists>y t. cur_year st = Some y \<and> cur_year_tick st = Some t)"
  by (auto simp: insert_training_order_def split: if_splits option.splits)

lemma insert_training_order_Inl:
  "insert_training_order st sz asched m = Inl f \<Longrightarrow>
     (sint sz < 0 \<and> f = LengthError) \<or>
     (0 \<le> sint sz \<and> (cur_year st = None \<or> cur_year_tick st = None) \<and> f = NullDeref)"
  by (auto simp: insert_training_order_def split: if_splits option.splits)

lemma train_months_Inr:
  "train_months st sz (i # rest) asched = Inr r \<Longrightarrow>
     0 \<le> sint sz \<and> (\<exists>y t. cur_year st = Some y \<and> cur_year_tick st = Some t)"
  by (auto split: sum.splits dest: insert_training_order_Inr)

lemma train_months_Inl:
  "train_months st sz idx asched = Inl f \<Longrightarrow>
     (sint sz < 0 \<and> f = LengthError) \<or>
     (0 \<le> sint sz \<and> (cur_year st = None \<or> cur_year_tick st = None) \<and> f = NullDeref)"
proof (induction idx arbitrary: asched)
  case Nil
  then show ?case by simp
next
  case (Cons i rest)
  show ?case
  proof (cases "insert_training_order st sz asched i")
    case (Inl g)
    with Cons.prems have "g = f" by simp
    with Inl show ?thesis by (auto dest: insert_training_order_Inl)
  next
    case (Inr a)
    with Cons.prems show ?thesis by (auto dest: Cons.IH)
  qed
qed

lemma train_months_nth:
  assumes y: "cur_year st = Some y" and t: "cur_year_tick st = Some t" and sz: "0 \<le> sint sz"
  shows "distinct idx \<Longrightarrow> \<forall>i\<in>set idx. i < length asched \<Longrightarrow>
    \<exists>r. train_months st sz idx asched = Inr r \<and> length r = length asched \<and>
      (\<forall>i<length asched. r ! i =
         (if i \<in> set idx
          then (asched ! i)\<lparr>sse_orders := sse_orders (asched ! i) @ [new_training_order sz y t],
                 sse_uniform_mode := 0, sse_sleep_mode := 0\<rparr>
          else asched ! i))"
proof (induction idx arbitrary: asched)
  case Nil
  then show ?case by simp
next
  case (Cons j rest)
  define asched1 where "asched1 =
    (asched[j := (asched ! j)\<lparr>sse_orders := sse_orders (asched ! j) @ [new_training_order sz y t],
                 sse_uniform_mode := 0\<rparr>])"
  define asched2 where "asched2 = asched1[j := (asched1 ! j)\<lparr>sse_sleep_mode := 0\<rparr>]"
  have j: "j < length asched" and jr: "j \<notin> set rest" and dr: "distinct rest"
    and br: "\<forall>i\<in>set rest. i < length asched2"
    using Cons.prems by (simp_all add: asched1_def asched2_def)
  have step: "train_months st sz (j # rest) asched = train_months st sz rest asched2"
    using y t sz by (simp add: insert_training_order_def asched1_def asched2_def)
  from Cons.IH [OF dr br] obtain r where r: "train_months st sz rest asched2 = Inr r"
    and len: "length r = length asched2"
    and nth: "\<forall>i<length asched2. r ! i =
         (if i \<in> set rest
          then (asched2 ! i)\<lparr>sse_orders := sse_orders (asched2 ! i) @ [new_training_order sz y t],
                 sse_uniform_mode := 0, sse_sleep_mode := 0\<rparr>
          else asched2 ! i)"
    by blast
  have len2: "length asched2 = length asched"
    by (simp add: asched1_def asched2_def)
  have a2: "\<And>i. i < length asched \<Longrightarrow> asched2 ! i =
      (if i = j
       then (asched ! i)\<lparr>sse_orders := sse_orders (asched ! i) @ [new_training_order sz y t],
                 sse_uniform_mode := 0, sse_sleep_mode := 0\<rparr>
       else asched ! i)"
    using j by (simp add: asched1_def asched2_def nth_list_update)
  have "\<forall>i<length asched. r ! i =
         (if i \<in> set (j # rest)
          then (asched ! i)\<lparr>sse_orders := sse_orders (asched ! i) @ [new_training_order sz y t],
                 sse_uniform_mode := 0, sse_sleep_mode := 0\<rparr>
          else asched ! i)"
  proof (intro allI impI)
    fix i assume i: "i < length asched"
    show "r ! i =
         (if i \<in> set (j # rest)
          then (asched ! i)\<lparr>sse_orders := sse_orders (asched ! i) @ [new_training_order sz y t],
                 sse_uniform_mode := 0, sse_sleep_mode := 0\<rparr>
          else asched ! i)"
    proof (cases "i = j")
      case True
      with nth i len2 jr a2 [OF i] show ?thesis by simp
    next
      case False
      with nth i len2 a2 [OF i] show ?thesis by simp
    qed
  qed
  with r len len2 step show ?case by simp
qed

lemma alloc_asched_nth:
  "length (alloc_asched sz) = 12"
  "i < 12 \<Longrightarrow> alloc_asched sz ! i =
     \<lparr>sse_sleep_mode = 0, sse_uniform_mode = 0, sse_orders = [],
      sse_order_assignments = replicate (nat (sint sz)) (- 1)\<rparr>"
  by (simp_all add: alloc_asched_def new_squad_schedule_entry_def)

lemma staggered_indices_ok:
  "distinct (staggered_indices c)" "\<forall>i\<in>set (staggered_indices c). i < 12"
  "staggered_indices c \<noteq> []"
  by (simp_all add: staggered_indices_def)

lemma staggered_indices_set:
  "set (staggered_indices c) = (if odd (sint c) then {3, 4, 5, 9, 10, 11} else {0, 1, 2, 6, 7, 8})"
  by (simp add: staggered_indices_def and_1_odd_sint)

lemma train_months_alloc:
  assumes ok: "train_months st sz idx (alloc_asched sz) = Inr a"
    and idx: "distinct idx" "\<forall>i\<in>set idx. i < 12" "idx \<noteq> []"
  shows "0 \<le> sint sz \<and> length a = 12 \<and>
    (\<exists>y t. cur_year st = Some y \<and> cur_year_tick st = Some t \<and>
      (\<forall>i<12. a ! i =
         (if i \<in> set idx
          then \<lparr>sse_sleep_mode = 0, sse_uniform_mode = 0,
                sse_orders = [new_training_order sz y t],
                sse_order_assignments = replicate (nat (sint sz)) (- 1)\<rparr>
          else \<lparr>sse_sleep_mode = 0, sse_uniform_mode = 0, sse_orders = [],
                sse_order_assignments = replicate (nat (sint sz)) (- 1)\<rparr>)))"
proof -
  obtain i rest where ir: "idx = i # rest"
    using idx(3) by (cases idx) auto
  from train_months_Inr [OF ok [unfolded ir]]
  obtain y t where sz: "0 \<le> sint sz" and y: "cur_year st = Some y"
    and t: "cur_year_tick st = Some t"
    by blast
  have bound: "\<forall>i\<in>set idx. i < length (alloc_asched sz)"
    using idx(2) by (simp add: alloc_asched_nth(1))
  from train_months_nth [OF y t sz idx(1) bound] ok
  have len: "length a = 12"
    and nth: "\<forall>i<12. a ! i =
         (if i \<in> set idx
          then (alloc_asched sz ! i)
                 \<lparr>sse_orders := sse_orders (alloc_asched sz ! i) @ [new_training_order sz y t],
                  sse_uniform_mode := 0, sse_sleep_mode := 0\<rparr>
          else alloc_asched sz ! i)"
    by (auto simp: alloc_asched_nth(1))
  have "\<forall>i<12. a ! i =
         (if i \<in> set idx
          then \<lparr>sse_sleep_mode = 0, sse_uniform_mode = 0,
                sse_orders = [new_training_order sz y t],
                sse_order_assignments = replicate (nat (sint sz)) (- 1)\<rparr>
          else \<lparr>sse_sleep_mode = 0, sse_uniform_mode = 0, sse_orders = [],
                sse_order_assignments = replicate (nat (sint sz)) (- 1)\<rparr>)"
    using nth by (simp add: alloc_asched_nth(2))
  with sz len y t show ?thesis by blast
qed

lemma routine_schedule_length:
  assumes "routine_schedule st c sz r = Inr a"
  shows "length a = 12"
proof -
  consider (stag) "ar_name r = ''Staggered training''" | (const) "ar_name r = ''Constant training''"
    | (other) "ar_name r \<noteq> ''Staggered training''" "ar_name r \<noteq> ''Constant training''"
    by blast
  then show ?thesis
  proof cases
    case stag
    with assms have "train_months st sz (staggered_indices c) (alloc_asched sz) = Inr a"
      by (simp add: routine_schedule_def Let_def)
    from train_months_alloc [OF this staggered_indices_ok] show ?thesis by simp
  next
    case const
    with assms have "train_months st sz [0..<12] (alloc_asched sz) = Inr a"
      by (simp add: routine_schedule_def Let_def)
    from train_months_alloc [OF this] show ?thesis by simp
  next
    case other
    with assms show ?thesis
      by (auto simp: routine_schedule_def Let_def alloc_asched_nth(1) split: if_splits)
  qed
qed

lemma routine_schedule_staggered:
  assumes "routine_schedule st c sz r = Inr a" and "ar_name r = ''Staggered training''"
  shows "0 \<le> sint sz \<and>
    (\<exists>y t. cur_year st = Some y \<and> cur_year_tick st = Some t \<and>
      (\<forall>i<12. a ! i =
         (if i \<in> set (staggered_indices c)
          then \<lparr>sse_sleep_mode = 0, sse_uniform_mode = 0,
                sse_orders = [new_training_order sz y t],
                sse_order_assignments = replicate (nat (sint sz)) (- 1)\<rparr>
          else \<lparr>sse_sleep_mode = 0, sse_uniform_mode = 0, sse_orders = [],
                sse_order_assignments = replicate (nat (sint sz)) (- 1)\<rparr>)))"
proof -
  from assms have "train_months st sz (staggered_indices c) (alloc_asched sz) = Inr a"
    by (simp add: routine_schedule_def Let_def)
  from train_months_alloc [OF this staggered_indices_ok] show ?thesis by simp
qed

lemma routine_schedule_constant:
  assumes "routine_schedule st c sz r = Inr a" and "ar_name r = ''Constant training''"
  shows "0 \<le> sint sz \<and>
    (\<exists>y t. cur_year st = Some y \<and> cur_year_tick st = Some t \<and>
      (\<forall>i<12. a ! i =
          \<lparr>sse_sleep_mode = 0, sse_uniform_mode = 0,
           sse_orders = [new_training_order sz y t],
           sse_order_assignments = replicate (nat (sint sz)) (- 1)\<rparr>))"
proof -
  from assms have "train_months st sz [0..<12] (alloc_asched sz) = Inr a"
    by (simp add: routine_schedule_def Let_def)
  from train_months_alloc [OF this] show ?thesis by simp
qed

lemma routine_schedule_other:
  assumes "routine_schedule st c sz r = Inr a"
    and "ar_name r \<noteq> ''Staggered training''" and "ar_name r \<noteq> ''Constant training''"
    and "i < 12"
  shows "sse_orders (a ! i) = []"
  using assms
  by (auto simp: routine_schedule_def Let_def alloc_asched_nth alloc_asched_nth(1) split: if_splits)

lemma routine_schedule_Inl:
  assumes "routine_schedule st c sz r = Inl f"
  shows "(ar_name r = ''Staggered training'' \<or> ar_name r = ''Constant training'') \<and>
     ((sint sz < 0 \<and> f = LengthError) \<or>
      (0 \<le> sint sz \<and> (cur_year st = None \<or> cur_year_tick st = None) \<and> f = NullDeref))"
  using assms
  by (auto simp: routine_schedule_def Let_def split: if_splits dest: train_months_Inl)

lemma build_schedule_Inr:
  "build_schedule st c sz routines = Inr sched \<Longrightarrow>
     length sched = length routines \<and>
     (\<forall>k<length routines. routine_schedule st c sz (routines ! k) = Inr (sched ! k))"
proof (induction routines arbitrary: sched)
  case Nil
  then show ?case by simp
next
  case (Cons r rs)
  from Cons.prems obtain a rest where a: "routine_schedule st c sz r = Inr a"
    and rest: "build_schedule st c sz rs = Inr rest" and sched: "sched = a # rest"
    by (auto split: sum.splits)
  from Cons.IH [OF rest] have len: "length rest = length rs"
    and nth: "\<forall>k<length rs. routine_schedule st c sz (rs ! k) = Inr (rest ! k)"
    by simp_all
  show ?case
  proof (intro conjI allI impI)
    show "length sched = length (r # rs)" using len sched by simp
  next
    fix k assume "k < length (r # rs)"
    then show "routine_schedule st c sz ((r # rs) ! k) = Inr (sched ! k)"
      using a nth sched by (cases k) simp_all
  qed
qed

lemma build_schedule_Inl:
  "build_schedule st c sz routines = Inl f \<Longrightarrow>
     \<exists>r\<in>set routines. routine_schedule st c sz r = Inl f"
  by (induction routines) (auto split: sum.splits)

lemma build_schedule_total:
  "\<forall>r\<in>set routines. \<exists>a. routine_schedule st c sz r = Inr a \<Longrightarrow>
     \<exists>sched. build_schedule st c sz routines = Inr sched"
  by (induction routines) auto

subsection \<open>The course of a call\<close>

lemma makeSquad_resolved:
  assumes "squad_next_id st = Some c" and "plotinfo st = Some pinfo"
    and "historical_entity_find st (pi_group_id pinfo) = Some fort"
    and "find_first (\<lambda>a. epa_id a = assignment_id) (he_assignments fort) = Some a"
    and "epa_squad_id a = - 1"
    and "find_first (\<lambda>p. ep_id p = epa_position_id a) (he_own fort) = Some pos"
  shows "makeSquad st assignment_id =
     (case construct_squad st c pinfo a pos of
        Inl f \<Rightarrow> Inl f
      | Inr result \<Rightarrow>
          (case commit (pi_group_id pinfo) assignment_id result st of
             Inl f \<Rightarrow> Inl f
           | Inr st' \<Rightarrow> Inr (Some result, st')))"
  using assms by (simp add: makeSquad_def)

lemma makeSquad_SomeD:
  assumes "makeSquad st assignment_id = Inr (Some sq, st')"
  shows "\<exists>c pinfo fort a pos.
      squad_next_id st = Some c \<and> plotinfo st = Some pinfo \<and>
      historical_entity_find st (pi_group_id pinfo) = Some fort \<and>
      find_first (\<lambda>a. epa_id a = assignment_id) (he_assignments fort) = Some a \<and>
      epa_squad_id a = - 1 \<and>
      find_first (\<lambda>p. ep_id p = epa_position_id a) (he_own fort) = Some pos \<and>
      construct_squad st c pinfo a pos = Inr sq \<and>
      commit (pi_group_id pinfo) assignment_id sq st = Inr st'"
proof -
  obtain c where c: "squad_next_id st = Some c"
    using assms by (cases "squad_next_id st") (simp_all add: makeSquad_def)
  obtain pinfo where p: "plotinfo st = Some pinfo"
    using assms c by (cases "plotinfo st") (simp_all add: makeSquad_def)
  obtain fort where f: "historical_entity_find st (pi_group_id pinfo) = Some fort"
    using assms c p
    by (cases "historical_entity_find st (pi_group_id pinfo)") (simp_all add: makeSquad_def)
  obtain a where a: "find_first (\<lambda>a. epa_id a = assignment_id) (he_assignments fort) = Some a"
    using assms c p f
    by (cases "find_first (\<lambda>a. epa_id a = assignment_id) (he_assignments fort)")
      (simp_all add: makeSquad_def)
  have free: "epa_squad_id a = - 1"
    using assms c p f a by (cases "epa_squad_id a = - 1") (simp_all add: makeSquad_def)
  obtain pos where pos: "find_first (\<lambda>p. ep_id p = epa_position_id a) (he_own fort) = Some pos"
    using assms c p f a free
    by (cases "find_first (\<lambda>p. ep_id p = epa_position_id a) (he_own fort)")
      (simp_all add: makeSquad_def)
  have "construct_squad st c pinfo a pos = Inr sq \<and>
      commit (pi_group_id pinfo) assignment_id sq st = Inr st'"
    using assms unfolding makeSquad_resolved [OF c p f a free pos]
    by (auto split: sum.splits)
  with c p f a free pos show ?thesis by blast
qed

lemma construct_squad_Inr:
  assumes "construct_squad st c pinfo a pos = Inr sq"
  shows "sq_id sq = c"
    and "sq_positions sq = replicate (nat (sint (ep_squad_size pos))) \<lparr>sp_flags = 0\<rparr>"
    and "build_schedule st c (ep_squad_size pos) (pi_routines pinfo) = Inr (sq_schedule sq)"
  using assms
  by (auto simp: construct_squad_def Let_def split: sum.splits)

lemma commit_steps_Inr:
  assumes c: "squad_next_id st = Some c" and w: "world st = Some w"
  shows "commit_steps gid assignment_id sq st =
    Inr [st\<lparr>squad_next_id := Some (c + 1)\<rparr>,
         commit_fort_squads gid sq (st\<lparr>squad_next_id := Some (c + 1)\<rparr>),
         (commit_fort_squads gid sq (st\<lparr>squad_next_id := Some (c + 1)\<rparr>))
           \<lparr>world := Some (w\<lparr>squads_all := squads_all w @ [sq]\<rparr>)\<rparr>,
         commit_assignment gid assignment_id sq
           ((commit_fort_squads gid sq (st\<lparr>squad_next_id := Some (c + 1)\<rparr>))
              \<lparr>world := Some (w\<lparr>squads_all := squads_all w @ [sq]\<rparr>)\<rparr>)]"
  using c w
  by (simp add: commit_steps_def commit_next_id_def commit_world_squads_def
      commit_fort_squads_def Let_def)

lemma commit_Inr:
  assumes c: "squad_next_id st = Some c" and ok: "commit gid assignment_id sq st = Inr st'"
  shows "\<exists>w. world st = Some w \<and>
      st' = commit_assignment gid assignment_id sq
              ((commit_fort_squads gid sq (st\<lparr>squad_next_id := Some (c + 1)\<rparr>))
                 \<lparr>world := Some (w\<lparr>squads_all := squads_all w @ [sq]\<rparr>)\<rparr>)"
proof (cases "world st")
  case None
  with c ok show ?thesis
    by (simp add: commit_def commit_steps_def commit_next_id_def commit_world_squads_def
        commit_fort_squads_def Let_def)
next
  case (Some w)
  with ok show ?thesis
    by (simp add: commit_def commit_steps_Inr [OF c Some])
qed

lemma fort_squads_entity_find:
  assumes "historical_entity_find st gid = Some fort"
  shows "historical_entity_find (commit_fort_squads gid sq (st\<lparr>squad_next_id := Some c'\<rparr>)) gid
    = Some (fort\<lparr>he_squads := he_squads fort @ [sq_id sq]\<rparr>)"
    and "historical_entity_find
       ((commit_fort_squads gid sq (st\<lparr>squad_next_id := Some c'\<rparr>))\<lparr>world := Some w'\<rparr>) gid
    = Some (fort\<lparr>he_squads := he_squads fort @ [sq_id sq]\<rparr>)"
proof -
  let ?P = "\<lambda>e. he_id e = gid"
  let ?f1 = "\<lambda>e. e\<lparr>he_squads := he_squads e @ [sq_id sq]\<rparr>"
  have 0: "find_first ?P (entities st) = Some fort"
    using assms by (simp add: historical_entity_find_def)
  then have gid: "he_id fort = gid"
    by (auto dest: find_first_SomeD)
  have 1: "find_first ?P (update_first ?P ?f1 (entities st)) = Some (?f1 fort)"
    by (rule find_first_update_first [OF 0]) (simp add: gid)
  show "historical_entity_find (commit_fort_squads gid sq (st\<lparr>squad_next_id := Some c'\<rparr>)) gid
    = Some (fort\<lparr>he_squads := he_squads fort @ [sq_id sq]\<rparr>)"
    and "historical_entity_find
       ((commit_fort_squads gid sq (st\<lparr>squad_next_id := Some c'\<rparr>))\<lparr>world := Some w'\<rparr>) gid
    = Some (fort\<lparr>he_squads := he_squads fort @ [sq_id sq]\<rparr>)"
    using 1 by (simp_all add: historical_entity_find_def commit_fort_squads_def)
qed

lemma commit_fields:
  "squad_next_id (commit_assignment gid aid sq
      ((commit_fort_squads gid sq (st\<lparr>squad_next_id := Some c'\<rparr>))\<lparr>world := Some w'\<rparr>)) = Some c'"
  "world (commit_assignment gid aid sq
      ((commit_fort_squads gid sq (st\<lparr>squad_next_id := Some c'\<rparr>))\<lparr>world := Some w'\<rparr>)) = Some w'"
  "entities (commit_assignment gid aid sq
      ((commit_fort_squads gid sq (st\<lparr>squad_next_id := Some c'\<rparr>))\<lparr>world := Some w'\<rparr>)) =
    update_first (\<lambda>e. he_id e = gid)
      (\<lambda>e. e\<lparr>he_assignments :=
                update_first (\<lambda>a. epa_id a = aid) (\<lambda>a. a\<lparr>epa_squad_id := sq_id sq\<rparr>)
                  (he_assignments e)\<rparr>)
      (update_first (\<lambda>e. he_id e = gid) (\<lambda>e. e\<lparr>he_squads := he_squads e @ [sq_id sq]\<rparr>)
         (entities st))"
  by (simp_all add: commit_assignment_def commit_fort_squads_def)

lemma commit_entity_find:
  assumes "historical_entity_find st gid = Some fort"
  shows "historical_entity_find (commit_assignment gid aid sq
      ((commit_fort_squads gid sq (st\<lparr>squad_next_id := Some c'\<rparr>))\<lparr>world := Some w'\<rparr>)) gid
    = Some (fort\<lparr>he_squads := he_squads fort @ [sq_id sq],
                he_assignments :=
                  update_first (\<lambda>a. epa_id a = aid) (\<lambda>a. a\<lparr>epa_squad_id := sq_id sq\<rparr>)
                    (he_assignments fort)\<rparr>)"
proof -
  let ?P = "\<lambda>e. he_id e = gid"
  let ?f1 = "\<lambda>e. e\<lparr>he_squads := he_squads e @ [sq_id sq]\<rparr>"
  let ?f2 = "\<lambda>e. e\<lparr>he_assignments :=
                update_first (\<lambda>a. epa_id a = aid) (\<lambda>a. a\<lparr>epa_squad_id := sq_id sq\<rparr>)
                  (he_assignments e)\<rparr>"
  have 0: "find_first ?P (entities st) = Some fort"
    using assms by (simp add: historical_entity_find_def)
  then have gid: "he_id fort = gid"
    by (auto dest: find_first_SomeD)
  have 1: "find_first ?P (update_first ?P ?f1 (entities st)) = Some (?f1 fort)"
    by (rule find_first_update_first [OF 0]) (simp add: gid)
  have 2: "find_first ?P (update_first ?P ?f2 (update_first ?P ?f1 (entities st)))
      = Some (?f2 (?f1 fort))"
    by (rule find_first_update_first [OF 1]) (simp add: gid)
  show ?thesis
    unfolding historical_entity_find_def commit_fields(3) 2 by simp
qed

subsection \<open>Results on squad creation\<close>

lemma routine_schedule_total:
  assumes "(ar_name r = ''Staggered training'' \<or> ar_name r = ''Constant training'') \<longrightarrow>
      0 \<le> sint sz \<and> cur_year st \<noteq> None \<and> cur_year_tick st \<noteq> None"
  shows "\<exists>a. routine_schedule st c sz r = Inr a"
proof (cases "ar_name r = ''Staggered training'' \<or> ar_name r = ''Constant training''")
  case True
  with assms obtain y t where sz: "0 \<le> sint sz" and y: "cur_year st = Some y"
    and t: "cur_year_tick st = Some t"
    by auto
  have 1: "\<exists>a. train_months st sz (staggered_indices c) (alloc_asched sz) = Inr a"
    using train_months_nth [OF y t sz staggered_indices_ok(1) [of c],
        where asched = "alloc_asched sz"]
      staggered_indices_ok(2) [of c]
    by (simp add: alloc_asched_nth(1)) blast
  have 2: "\<exists>a. train_months st sz [0..<12] (alloc_asched sz) = Inr a"
    using train_months_nth [OF y t sz, where idx = "[0..<12]" and asched = "alloc_asched sz"]
    by (auto simp: alloc_asched_nth(1))
  from True 1 2 show ?thesis
    by (auto simp: routine_schedule_def Let_def)
next
  case False
  then show ?thesis by (simp add: routine_schedule_def Let_def)
qed

lemma makeSquad_total:
  assumes c: "squad_next_id st = Some c" and p: "plotinfo st = Some pinfo"
    and f: "historical_entity_find st (pi_group_id pinfo) = Some fort"
    and a: "find_first (\<lambda>a. epa_id a = assignment_id) (he_assignments fort) = Some a"
    and free: "epa_squad_id a = - 1"
    and pos: "find_first (\<lambda>p. ep_id p = epa_position_id a) (he_own fort) = Some pos"
    and w: "world st = Some w"
    and tr: "(\<exists>r\<in>set (pi_routines pinfo).
                ar_name r = ''Staggered training'' \<or> ar_name r = ''Constant training'') \<longrightarrow>
             0 \<le> sint (ep_squad_size pos) \<and> cur_year st \<noteq> None \<and> cur_year_tick st \<noteq> None"
  shows "\<exists>sq st'. makeSquad st assignment_id = Inr (Some sq, st')"
proof -
  have "\<forall>r\<in>set (pi_routines pinfo).
      \<exists>a. routine_schedule st c (ep_squad_size pos) r = Inr a"
    using tr by (intro ballI routine_schedule_total) blast
  then obtain sched where
    sched: "build_schedule st c (ep_squad_size pos) (pi_routines pinfo) = Inr sched"
    using build_schedule_total by blast
  then obtain sq where sq: "construct_squad st c pinfo a pos = Inr sq"
    by (simp add: construct_squad_def Let_def)
  obtain st' where "commit (pi_group_id pinfo) assignment_id sq st = Inr st'"
    by (simp add: commit_def commit_steps_Inr [OF c w])
  with sq show ?thesis
    unfolding makeSquad_resolved [OF c p f a free pos] by simp
qed

text \<open>
  Claim C1, with the counter read as the 32-bit value it is. When \<open>makeSquad\<close>
  returns a squad, the squad's id is the value \<open>c\<close> the next-squad-id counter held before
  the call and the counter afterwards holds \<open>c + 1\<close> in \<open>int32_t\<close> arithmetic: exactly
  one greater, except that a counter at \<open>INT32_MAX\<close> wraps around to \<open>INT32_MIN\<close>. The
  squad has exactly \<open>N\<close> position slots, \<open>N\<close> being the leader position's squad size
  (a count; were the field negative, the loop would create none). The commit writes in
  the order of the source, as the states \<open>s1\<close>, \<open>s2\<close>, \<open>s3\<close> and the final state after
  each of its four statements show: after the first only the counter has changed; after the
  second the settlement entity's squad-id list also ends with the squad's id, while the
  world registry is as before; after the third the registry also ends with the squad,
  while the assignments of the entity are as before (the found one still refers to
  \<open>-1\<close>); after the fourth the found assignment refers to the squad's id.
\<close>

theorem makeSquad_success:
  assumes ok: "makeSquad st assignment_id = Inr (Some sq, st')"
  shows "\<exists>c pinfo fort a pos w s1 s2 s3.
      squad_next_id st = Some c \<and> plotinfo st = Some pinfo \<and>
      historical_entity_find st (pi_group_id pinfo) = Some fort \<and>
      find_first (\<lambda>a. epa_id a = assignment_id) (he_assignments fort) = Some a \<and>
      epa_squad_id a = - 1 \<and>
      find_first (\<lambda>p. ep_id p = epa_position_id a) (he_own fort) = Some pos \<and>
      world st = Some w \<and>
      sq_id sq = c \<and>
      squad_next_id st' = Some (c + 1) \<and>
      (sint c \<noteq> 2147483647 \<longrightarrow> sint (c + 1) = sint c + 1) \<and>
      (sint c = 2147483647 \<longrightarrow> sint (c + 1) = - 2147483648) \<and>
      (0 \<le> sint (ep_squad_size pos) \<longrightarrow>
         int (length (sq_positions sq)) = sint (ep_squad_size pos)) \<and>
      (sint (ep_squad_size pos) < 0 \<longrightarrow> sq_positions sq = []) \<and>
      commit_steps (pi_group_id pinfo) assignment_id sq st = Inr [s1, s2, s3, st'] \<and>
      squad_next_id s1 = Some (c + 1) \<and> entities s1 = entities st \<and> world s1 = Some w \<and>
      squad_next_id s2 = Some (c + 1) \<and>
      historical_entity_find s2 (pi_group_id pinfo)
        = Some (fort\<lparr>he_squads := he_squads fort @ [c]\<rparr>) \<and>
      world s2 = Some w \<and>
      squad_next_id s3 = Some (c + 1) \<and>
      historical_entity_find s3 (pi_group_id pinfo)
        = Some (fort\<lparr>he_squads := he_squads fort @ [c]\<rparr>) \<and>
      world s3 = Some (w\<lparr>squads_all := squads_all w @ [sq]\<rparr>) \<and>
      historical_entity_find st' (pi_group_id pinfo) =
        Some (fort\<lparr>he_squads := he_squads fort @ [c],
                   he_assignments :=
                     update_first (\<lambda>a. epa_id a = assignment_id) (\<lambda>a. a\<lparr>epa_squad_id := c\<rparr>)
                       (he_assignments fort)\<rparr>) \<and>
      find_first (\<lambda>a. epa_id a = assignment_id)
        (update_first (\<lambda>a. epa_id a = assignment_id) (\<lambda>a. a\<lparr>epa_squad_id := c\<rparr>)
           (he_assignments fort)) = Some (a\<lparr>epa_squad_id := c\<rparr>) \<and>
      world st' = Some (w\<lparr>squads_all := squads_all w @ [sq]\<rparr>)"
proof -
  from makeSquad_SomeD [OF ok] obtain c pinfo fort a pos where
    c: "squad_next_id st = Some c" and p: "plotinfo st = Some pinfo"
    and f: "historical_entity_find st (pi_group_id pinfo) = Some fort"
    and a: "find_first (\<lambda>a. epa_id a = assignment_id) (he_assignments fort) = Some a"
    and free: "epa_squad_id a = - 1"
    and pos: "find_first (\<lambda>p. ep_id p = epa_position_id a) (he_own fort) = Some pos"
    and cs: "construct_squad st c pinfo a pos = Inr sq"
    and cm: "commit (pi_group_id pinfo) assignment_id sq st = Inr st'"
    by blast
  note sqf = construct_squad_Inr [OF cs]
  define s1 where "s1 = st\<lparr>squad_next_id := Some (c + 1)\<rparr>"
  define s2 where "s2 = commit_fort_squads (pi_group_id pinfo) sq s1"
  from commit_Inr [OF c cm] obtain w where w: "world st = Some w"
    and st': "st' = commit_assignment (pi_group_id pinfo) assignment_id sq
              (s2\<lparr>world := Some (w\<lparr>squads_all := squads_all w @ [sq]\<rparr>)\<rparr>)"
    unfolding s1_def s2_def by blast
  define s3 where "s3 = s2\<lparr>world := Some (w\<lparr>squads_all := squads_all w @ [sq]\<rparr>)\<rparr>"
  have steps: "commit_steps (pi_group_id pinfo) assignment_id sq st = Inr [s1, s2, s3, st']"
    unfolding commit_steps_Inr [OF c w] st' s3_def s2_def s1_def by simp
  have id: "sq_id sq = c" by (rule sqf(1))
  have next': "squad_next_id st' = Some (c + 1)"
    unfolding st' s2_def s1_def by (rule commit_fields(1))
  have incr: "sint c \<noteq> 2147483647 \<longrightarrow> sint (c + 1) = sint c + 1"
    by (simp add: sint_succ_int32)
  have wrap: "sint c = 2147483647 \<longrightarrow> sint (c + 1) = - 2147483648"
    by (simp add: sint_succ_wraps)
  have len1: "0 \<le> sint (ep_squad_size pos) \<longrightarrow>
      int (length (sq_positions sq)) = sint (ep_squad_size pos)"
    by (simp add: sqf(2))
  have len2: "sint (ep_squad_size pos) < 0 \<longrightarrow> sq_positions sq = []"
    by (simp add: sqf(2))
  have a1: "squad_next_id s1 = Some (c + 1)" "entities s1 = entities st" "world s1 = Some w"
    using w by (simp_all add: s1_def)
  have a2: "squad_next_id s2 = Some (c + 1)" "world s2 = Some w"
    using w by (simp_all add: s2_def s1_def commit_fort_squads_def)
  have e2: "historical_entity_find s2 (pi_group_id pinfo)
        = Some (fort\<lparr>he_squads := he_squads fort @ [c]\<rparr>)"
    unfolding s2_def s1_def fort_squads_entity_find(1) [OF f] id by simp
  have a3: "squad_next_id s3 = Some (c + 1)"
    "world s3 = Some (w\<lparr>squads_all := squads_all w @ [sq]\<rparr>)"
    using a2 by (simp_all add: s3_def)
  have e3: "historical_entity_find s3 (pi_group_id pinfo)
        = Some (fort\<lparr>he_squads := he_squads fort @ [c]\<rparr>)"
    unfolding s3_def s2_def s1_def fort_squads_entity_find(2) [OF f] id by simp
  have ent: "historical_entity_find st' (pi_group_id pinfo) =
        Some (fort\<lparr>he_squads := he_squads fort @ [c],
                   he_assignments :=
                     update_first (\<lambda>a. epa_id a = assignment_id) (\<lambda>a. a\<lparr>epa_squad_id := c\<rparr>)
                       (he_assignments fort)\<rparr>)"
    unfolding st' s2_def s1_def commit_entity_find [OF f] id by simp
  have asg: "find_first (\<lambda>a. epa_id a = assignment_id)
        (update_first (\<lambda>a. epa_id a = assignment_id) (\<lambda>a. a\<lparr>epa_squad_id := c\<rparr>)
           (he_assignments fort)) = Some (a\<lparr>epa_squad_id := c\<rparr>)"
    using find_first_SomeD [OF a] by (intro find_first_update_first [OF a]) simp
  have wld: "world st' = Some (w\<lparr>squads_all := squads_all w @ [sq]\<rparr>)"
    unfolding st' s2_def s1_def by (rule commit_fields(2))
  show ?thesis
    using c p f a free pos w id next' incr wrap len1 len2 steps a1 a2 e2 a3 e3 ent asg wld
    by blast
qed

text \<open>
  Claim C2. When the next-squad-id or the plot-info global is unavailable, or (with both
  available and the settlement entity found) the assignment id matches no assignment of
  the entity, or the assignment already references a squad other than \<open>-1\<close>, or the
  assignment's position does not exist on the entity, \<open>makeSquad\<close> returns the null
  result and the state is the one it was called in: the counter, the entity's squad-id
  list, the world registry and the assignment's squad reference are unchanged.
\<close>

theorem makeSquad_precondition_failure:
  "(squad_next_id st = None \<or> plotinfo st = None \<longrightarrow>
      makeSquad st assignment_id = Inr (None, st)) \<and>
   (\<forall>c pinfo fort.
      squad_next_id st = Some c \<and> plotinfo st = Some pinfo \<and>
      historical_entity_find st (pi_group_id pinfo) = Some fort \<and>
      (find_first (\<lambda>a. epa_id a = assignment_id) (he_assignments fort) = None \<or>
       (\<exists>a. find_first (\<lambda>a. epa_id a = assignment_id) (he_assignments fort) = Some a \<and>
          (epa_squad_id a \<noteq> - 1 \<or>
           find_first (\<lambda>p. ep_id p = epa_position_id a) (he_own fort) = None)))
      \<longrightarrow> makeSquad st assignment_id = Inr (None, st))"
  by (auto simp: makeSquad_def split: option.splits)

lemma ex_entity_find:
  "historical_entity_find (ex_make_state c [ex_fort sz ref squads] names sqs) 10
     = Some (ex_fort sz ref squads)"
  by (simp add: historical_entity_find_def ex_make_state_def ex_fort_def)

lemma ex_assignment_find:
  "find_first (\<lambda>a. epa_id a = 7) (he_assignments (ex_fort sz ref squads))
     = Some \<lparr>epa_id = 7, epa_position_id = 4, epa_squad_id = ref\<rparr>"
  "find_first (\<lambda>a. epa_id a = 8) (he_assignments (ex_fort sz ref squads))
     = Some \<lparr>epa_id = 8, epa_position_id = 5, epa_squad_id = - 1\<rparr>"
  "find_first (\<lambda>a. epa_id a = 9) (he_assignments (ex_fort sz ref squads))
     = Some \<lparr>epa_id = 9, epa_position_id = 4, epa_squad_id = 2\<rparr>"
  "find_first (\<lambda>a. epa_id a = 6) (he_assignments (ex_fort sz ref squads)) = None"
  by (simp_all add: ex_fort_def)

lemma ex_position_find:
  "find_first (\<lambda>p. ep_id p = 4) (he_own (ex_fort sz ref squads))
     = Some \<lparr>ep_id = 4, ep_squad_size = sz\<rparr>"
  "find_first (\<lambda>p. ep_id p = 5) (he_own (ex_fort sz ref squads)) = None"
  by (simp_all add: ex_fort_def)

lemma ex_globals:
  "squad_next_id (ex_make_state c ents names sqs) = Some c"
  "plotinfo (ex_make_state c ents names sqs) = Some (ex_plotinfo names)"
  "world (ex_make_state c ents names sqs) = Some \<lparr>squads_all = sqs\<rparr>"
  "cur_year (ex_make_state c ents names sqs) = Some 100"
  "cur_year_tick (ex_make_state c ents names sqs) = Some 20"
  "pi_group_id (ex_plotinfo names) = 10"
  "pi_routines (ex_plotinfo names) = map (\<lambda>n. \<lparr>ar_name = n\<rparr>) names"
  by (simp_all add: ex_make_state_def ex_plotinfo_def)

lemma ex_entities: "entities (ex_make_state c ents names sqs) = ents"
  by (simp add: ex_make_state_def)

lemma ex_resolved:
  "squad_next_id (ex_make_state c [ex_fort sz (- 1) squads] names sqs) = Some c"
  "plotinfo (ex_make_state c [ex_fort sz (- 1) squads] names sqs) = Some (ex_plotinfo names)"
  "historical_entity_find (ex_make_state c [ex_fort sz (- 1) squads] names sqs)
     (pi_group_id (ex_plotinfo names)) = Some (ex_fort sz (- 1) squads)"
  "find_first (\<lambda>a. epa_id a = 7) (he_assignments (ex_fort sz (- 1) squads))
     = Some \<lparr>epa_id = 7, epa_position_id = 4, epa_squad_id = - 1\<rparr>"
  "epa_squad_id \<lparr>epa_id = 7, epa_position_id = 4, epa_squad_id = - 1\<rparr> = - 1"
  "find_first
     (\<lambda>p. ep_id p = epa_position_id \<lparr>epa_id = 7, epa_position_id = 4, epa_squad_id = - 1\<rparr>)
     (he_own (ex_fort sz (- 1) squads)) = Some \<lparr>ep_id = 4, ep_squad_size = sz\<rparr>"
  by (simp_all add: ex_globals ex_entity_find ex_assignment_find ex_position_find)

text \<open>
  The theorem of claim C2 at one input for each of the failing preconditions.
\<close>

theorem makeSquad_precondition_failure_witness:
  "makeSquad ((ex_make_state 5 [ex_fort 2 (- 1) []] [] [])\<lparr>squad_next_id := None\<rparr>) 7
     = Inr (None, (ex_make_state 5 [ex_fort 2 (- 1) []] [] [])\<lparr>squad_next_id := None\<rparr>) \<and>
   makeSquad ((ex_make_state 5 [ex_fort 2 (- 1) []] [] [])\<lparr>plotinfo := None\<rparr>) 7
     = Inr (None, (ex_make_state 5 [ex_fort 2 (- 1) []] [] [])\<lparr>plotinfo := None\<rparr>) \<and>
   makeSquad (ex_make_state 5 [ex_fort 2 (- 1) []] [] []) 6
     = Inr (None, ex_make_state 5 [ex_fort 2 (- 1) []] [] []) \<and>
   makeSquad (ex_make_state 5 [ex_fort 2 (- 1) []] [] []) 9
     = Inr (None, ex_make_state 5 [ex_fort 2 (- 1) []] [] []) \<and>
   makeSquad (ex_make_state 5 [ex_fort 2 (- 1) []] [] []) 8
     = Inr (None, ex_make_state 5 [ex_fort 2 (- 1) []] [] [])"
proof (intro conjI)
  let ?S = "ex_make_state 5 [ex_fort 2 (- 1) []] [] []"
  show "makeSquad (?S\<lparr>squad_next_id := None\<rparr>) 7 = Inr (None, ?S\<lparr>squad_next_id := None\<rparr>)"
    using makeSquad_precondition_failure [of "?S\<lparr>squad_next_id := None\<rparr>" 7] by simp
  show "makeSquad (?S\<lparr>plotinfo := None\<rparr>) 7 = Inr (None, ?S\<lparr>plotinfo := None\<rparr>)"
    using makeSquad_precondition_failure [of "?S\<lparr>plotinfo := None\<rparr>" 7] by simp
  show "makeSquad ?S 6 = Inr (None, ?S)"
    using makeSquad_precondition_failure [of ?S 6]
    by (simp add: ex_globals ex_entity_find ex_assignment_find)
  show "makeSquad ?S 9 = Inr (None, ?S)"
    using makeSquad_precondition_failure [of ?S 9]
    by (simp add: ex_globals ex_entity_find ex_assignment_find)
  show "makeSquad ?S 8 = Inr (None, ?S)"
    using makeSquad_precondition_failure [of ?S 8]
    by (simp add: ex_globals ex_entity_find ex_assignment_find ex_position_find)
qed

text \<open>
  The counter of claim C1 is not always one greater after a successful call: from
  \<open>INT32_MAX\<close> the call succeeds, the squad gets the id \<open>2147483647\<close>, and the counter
  is left at \<open>-2147483648\<close>.
\<close>

theorem makeSquad_counter_wraps_counterexample:
  "makeSquad (ex_make_state 2147483647 [ex_fort 0 (- 1) []] [] []) 7
     = Inr (Some (ex_squad 2147483647 [] []),
            ex_make_state (2147483647 + 1) [ex_fort 0 2147483647 [2147483647]] []
              [ex_squad 2147483647 [] []]) \<and>
   squad_next_id (ex_make_state 2147483647 [ex_fort 0 (- 1) []] [] []) = Some 2147483647 \<and>
   sint (2147483647 :: int32_t) = 2147483647 \<and>
   squad_next_id (ex_make_state (2147483647 + 1) [ex_fort 0 2147483647 [2147483647]] []
              [ex_squad 2147483647 [] []]) = Some (2147483647 + 1) \<and>
   sint (2147483647 + 1 :: int32_t) = - 2147483648"
proof -
  let ?S = "ex_make_state 2147483647 [ex_fort 0 (- 1) []] [] []"
  have cs: "construct_squad ?S 2147483647 (ex_plotinfo [])
      \<lparr>epa_id = 7, epa_position_id = 4, epa_squad_id = - 1\<rparr> \<lparr>ep_id = 4, ep_squad_size = 0\<rparr>
      = Inr (ex_squad 2147483647 [] [])"
    by (simp add: construct_squad_def ex_plotinfo_def ex_squad_def)
  have cm: "commit 10 7 (ex_squad 2147483647 [] []) ?S
      = Inr (ex_make_state (2147483647 + 1) [ex_fort 0 2147483647 [2147483647]] []
              [ex_squad 2147483647 [] []])"
    by (simp add: commit_def commit_steps_def commit_next_id_def commit_fort_squads_def
        commit_world_squads_def commit_assignment_def ex_make_state_def ex_fort_def ex_squad_def)
  have "makeSquad ?S 7
     = Inr (Some (ex_squad 2147483647 [] []),
            ex_make_state (2147483647 + 1) [ex_fort 0 2147483647 [2147483647]] []
              [ex_squad 2147483647 [] []])"
    by (subst makeSquad_resolved [OF ex_resolved]) (simp add: ex_globals cs cm)
  then show ?thesis
    by (simp add: ex_globals)
qed

text \<open>
  The theorem of claim C1 at a settlement whose leader position has squad size 2 and the
  counter at 5, with the states between the four writes.
\<close>

theorem makeSquad_success_witness:
  "\<exists>sq st'. makeSquad (ex_make_state 5 [ex_fort 2 (- 1) []] [''Staggered training''] []) 7
      = Inr (Some sq, st') \<and>
     sq_id sq = 5 \<and> squad_next_id st' = Some 6 \<and> length (sq_positions sq) = 2 \<and>
     historical_entity_find st' 10 = Some (ex_fort 2 5 [5]) \<and>
     world st' = Some \<lparr>squads_all = [sq]\<rparr> \<and>
     (\<exists>s1 s2 s3.
        commit_steps 10 7 sq (ex_make_state 5 [ex_fort 2 (- 1) []] [''Staggered training''] [])
          = Inr [s1, s2, s3, st'] \<and>
        squad_next_id s1 = Some 6 \<and> entities s1 = [ex_fort 2 (- 1) []] \<and>
        world s1 = Some \<lparr>squads_all = []\<rparr> \<and>
        historical_entity_find s2 10 = Some (ex_fort 2 (- 1) [5]) \<and>
        world s2 = Some \<lparr>squads_all = []\<rparr> \<and>
        historical_entity_find s3 10 = Some (ex_fort 2 (- 1) [5]) \<and>
        world s3 = Some \<lparr>squads_all = [sq]\<rparr>)"
proof -
  let ?S = "ex_make_state 5 [ex_fort 2 (- 1) []] [''Staggered training''] []"
  have "\<exists>sq st'. makeSquad ?S 7 = Inr (Some sq, st')"
    by (rule makeSquad_total [OF ex_resolved ex_globals(3)]) (simp_all add: ex_globals)
  then obtain sq st' where ok: "makeSquad ?S 7 = Inr (Some sq, st')"
    by blast
  from makeSquad_success [OF ok]
  have "sq_id sq = 5 \<and> squad_next_id st' = Some 6 \<and> length (sq_positions sq) = 2 \<and>
     historical_entity_find st' 10 = Some (ex_fort 2 5 [5]) \<and>
     world st' = Some \<lparr>squads_all = [sq]\<rparr> \<and>
     (\<exists>s1 s2 s3.
        commit_steps 10 7 sq ?S = Inr [s1, s2, s3, st'] \<and>
        squad_next_id s1 = Some 6 \<and> entities s1 = [ex_fort 2 (- 1) []] \<and>
        world s1 = Some \<lparr>squads_all = []\<rparr> \<and>
        historical_entity_find s2 10 = Some (ex_fort 2 (- 1) [5]) \<and>
        world s2 = Some \<lparr>squads_all = []\<rparr> \<and>
        historical_entity_find s3 10 = Some (ex_fort 2 (- 1) [5]) \<and>
        world s3 = Some \<lparr>squads_all = [sq]\<rparr>)"
    by (auto simp: ex_globals ex_entity_find ex_assignment_find ex_position_find ex_entities)
      (simp_all add: ex_fort_def)
  with ok show ?thesis by blast
qed

lemma makeSquad_schedule:
  assumes ok: "makeSquad st assignment_id = Inr (Some sq, st')"
    and c: "squad_next_id st = Some c" and p: "plotinfo st = Some pinfo"
    and f: "historical_entity_find st (pi_group_id pinfo) = Some fort"
    and a: "find_first (\<lambda>a. epa_id a = assignment_id) (he_assignments fort) = Some a"
    and pos: "find_first (\<lambda>p. ep_id p = epa_position_id a) (he_own fort) = Some pos"
  shows "length (sq_schedule sq) = length (pi_routines pinfo)"
    and "\<forall>k<length (pi_routines pinfo).
           routine_schedule st c (ep_squad_size pos) (pi_routines pinfo ! k)
             = Inr (sq_schedule sq ! k)"
proof -
  from makeSquad_SomeD [OF ok] c p f a pos
  have "construct_squad st c pinfo a pos = Inr sq"
    by auto
  from construct_squad_Inr(3) [OF this]
  have "build_schedule st c (ep_squad_size pos) (pi_routines pinfo) = Inr (sq_schedule sq)" .
  from build_schedule_Inr [OF this]
  show "length (sq_schedule sq) = length (pi_routines pinfo)"
    and "\<forall>k<length (pi_routines pinfo).
           routine_schedule st c (ep_squad_size pos) (pi_routines pinfo ! k)
             = Inr (sq_schedule sq ! k)"
    by simp_all
qed

text \<open>
  Claim C3. After a successful call, the schedule has one array of twelve slots per
  alert routine, and for a routine named exactly \<open>Staggered training\<close>: when the counter
  before the increment is odd, each of the slots 3, 4, 5, 9, 10, 11 holds exactly one order,
  a training order, and has sleep-mode 0, and the other six slots hold no order; when it is
  even the same holds with the slots 0, 1, 2, 6, 7, 8.
\<close>

theorem makeSquad_staggered:
  assumes ok: "makeSquad st assignment_id = Inr (Some sq, st')"
    and c: "squad_next_id st = Some c" and p: "plotinfo st = Some pinfo"
    and k: "k < length (pi_routines pinfo)"
    and name: "ar_name (pi_routines pinfo ! k) = ''Staggered training''"
  shows "length (sq_schedule sq) = length (pi_routines pinfo) \<and>
    length (sq_schedule sq ! k) = 12 \<and>
    (\<forall>i<12.
       (i \<in> (if odd (sint c) then {3, 4, 5, 9, 10, 11} else {0, 1, 2, 6, 7, 8}) \<longrightarrow>
          (\<exists>order. sse_orders (sq_schedule sq ! k ! i) = [order] \<and> sso_order order \<noteq> None) \<and>
          sse_sleep_mode (sq_schedule sq ! k ! i) = 0) \<and>
       (i \<notin> (if odd (sint c) then {3, 4, 5, 9, 10, 11} else {0, 1, 2, 6, 7, 8}) \<longrightarrow>
          sse_orders (sq_schedule sq ! k ! i) = []))"
proof -
  from makeSquad_SomeD [OF ok] c p obtain fort a pos where
    f: "historical_entity_find st (pi_group_id pinfo) = Some fort"
    and a: "find_first (\<lambda>a. epa_id a = assignment_id) (he_assignments fort) = Some a"
    and pos: "find_first (\<lambda>p. ep_id p = epa_position_id a) (he_own fort) = Some pos"
    by auto
  note sch = makeSquad_schedule [OF ok c p f a pos]
  have rs: "routine_schedule st c (ep_squad_size pos) (pi_routines pinfo ! k)
      = Inr (sq_schedule sq ! k)"
    using sch(2) k by simp
  from routine_schedule_staggered [OF rs name] obtain y t where
    nth: "\<forall>i<12. sq_schedule sq ! k ! i =
         (if i \<in> set (staggered_indices c)
          then \<lparr>sse_sleep_mode = 0, sse_uniform_mode = 0,
                sse_orders = [new_training_order (ep_squad_size pos) y t],
                sse_order_assignments = replicate (nat (sint (ep_squad_size pos))) (- 1)\<rparr>
          else \<lparr>sse_sleep_mode = 0, sse_uniform_mode = 0, sse_orders = [],
                sse_order_assignments = replicate (nat (sint (ep_squad_size pos))) (- 1)\<rparr>)"
    by blast
  have "\<forall>i<12.
       (i \<in> set (staggered_indices c) \<longrightarrow>
          (\<exists>order. sse_orders (sq_schedule sq ! k ! i) = [order] \<and> sso_order order \<noteq> None) \<and>
          sse_sleep_mode (sq_schedule sq ! k ! i) = 0) \<and>
       (i \<notin> set (staggered_indices c) \<longrightarrow> sse_orders (sq_schedule sq ! k ! i) = [])"
    using nth by (simp add: new_training_order_def)
  then show ?thesis
    using sch(1) routine_schedule_length [OF rs] unfolding staggered_indices_set by simp
qed

lemma new_training_order_fields:
  "sint (sso_min_count (new_training_order sz y t)) = sint sz"
  "length (sso_positions (new_training_order sz y t)) = nat (sint sz)"
  "sso_order (new_training_order sz y t) = Some \<lparr>so_year = y, so_year_tick = t, so_unk_v40_3 = - 1\<rparr>"
  by (simp_all add: new_training_order_def sint_scast_squad_size)

lemma schedule_slot:
  assumes rs: "routine_schedule st c sz r = Inr a" and i: "i < 12"
  shows "sse_orders (a ! i) = [] \<or>
    (0 \<le> sint sz \<and>
     (\<exists>y t. cur_year st = Some y \<and> cur_year_tick st = Some t \<and>
        sse_orders (a ! i) = [new_training_order sz y t]) \<and>
     sse_uniform_mode (a ! i) = 0 \<and> sse_sleep_mode (a ! i) = 0)"
proof -
  consider (stag) "ar_name r = ''Staggered training''" | (const) "ar_name r = ''Constant training''"
    | (other) "ar_name r \<noteq> ''Staggered training''" "ar_name r \<noteq> ''Constant training''"
    by blast
  then show ?thesis
  proof cases
    case stag
    from routine_schedule_staggered [OF rs stag] i show ?thesis
      by (cases "i \<in> set (staggered_indices c)") auto
  next
    case const
    from routine_schedule_constant [OF rs const] i show ?thesis by auto
  next
    case other
    from routine_schedule_other [OF rs other i] show ?thesis by simp
  qed
qed

text \<open>
  Claim C4. After a successful call, every order attached to any schedule slot has a
  minimum-participant count equal to the squad size \<open>N\<close>, a per-position array of
  length \<open>N\<close>, and a training record whose year and tick are the host's current-year and
  year-tick globals and whose reserved field is \<open>-1\<close>; a slot that holds an order has
  uniform-mode 0; under \<open>Constant training\<close> each of the twelve slots, and under
  \<open>Staggered training\<close> each of the six slots selected by the parity of the counter, holds
  exactly one order; and under \<open>Constant training\<close> each of the twelve slots has
  sleep-mode 0.
\<close>

theorem makeSquad_training_orders:
  assumes ok: "makeSquad st assignment_id = Inr (Some sq, st')"
    and c: "squad_next_id st = Some c" and p: "plotinfo st = Some pinfo"
    and f: "historical_entity_find st (pi_group_id pinfo) = Some fort"
    and a: "find_first (\<lambda>a. epa_id a = assignment_id) (he_assignments fort) = Some a"
    and pos: "find_first (\<lambda>p. ep_id p = epa_position_id a) (he_own fort) = Some pos"
    and k: "k < length (pi_routines pinfo)" and i: "i < 12"
  shows "(\<forall>order\<in>set (sse_orders (sq_schedule sq ! k ! i)).
            sint (sso_min_count order) = sint (ep_squad_size pos) \<and>
            int (length (sso_positions order)) = sint (ep_squad_size pos) \<and>
            (\<exists>tr. sso_order order = Some tr \<and> cur_year st = Some (so_year tr) \<and>
               cur_year_tick st = Some (so_year_tick tr) \<and> so_unk_v40_3 tr = - 1)) \<and>
         (sse_orders (sq_schedule sq ! k ! i) \<noteq> [] \<longrightarrow>
            sse_uniform_mode (sq_schedule sq ! k ! i) = 0) \<and>
         (ar_name (pi_routines pinfo ! k) = ''Constant training'' \<or>
          ar_name (pi_routines pinfo ! k) = ''Staggered training'' \<and>
            i \<in> (if odd (sint c) then {3, 4, 5, 9, 10, 11} else {0, 1, 2, 6, 7, 8})
          \<longrightarrow> length (sse_orders (sq_schedule sq ! k ! i)) = 1) \<and>
         (ar_name (pi_routines pinfo ! k) = ''Constant training'' \<longrightarrow>
            sse_sleep_mode (sq_schedule sq ! k ! i) = 0)"
proof -
  note sch = makeSquad_schedule [OF ok c p f a pos]
  have rs: "routine_schedule st c (ep_squad_size pos) (pi_routines pinfo ! k)
      = Inr (sq_schedule sq ! k)"
    using sch(2) k by simp
  have 1: "\<forall>order\<in>set (sse_orders (sq_schedule sq ! k ! i)).
            sint (sso_min_count order) = sint (ep_squad_size pos) \<and>
            int (length (sso_positions order)) = sint (ep_squad_size pos) \<and>
            (\<exists>tr. sso_order order = Some tr \<and> cur_year st = Some (so_year tr) \<and>
               cur_year_tick st = Some (so_year_tick tr) \<and> so_unk_v40_3 tr = - 1)"
    using schedule_slot [OF rs i] by (auto simp: new_training_order_fields)
  have 2: "sse_orders (sq_schedule sq ! k ! i) \<noteq> [] \<longrightarrow>
            sse_uniform_mode (sq_schedule sq ! k ! i) = 0"
    using schedule_slot [OF rs i] by auto
  have 3: "ar_name (pi_routines pinfo ! k) = ''Constant training'' \<longrightarrow>
      length (sse_orders (sq_schedule sq ! k ! i)) = 1 \<and>
      sse_sleep_mode (sq_schedule sq ! k ! i) = 0"
    using routine_schedule_constant [OF rs] i by auto
  have 4: "ar_name (pi_routines pinfo ! k) = ''Staggered training'' \<and>
            i \<in> (if odd (sint c) then {3, 4, 5, 9, 10, 11} else {0, 1, 2, 6, 7, 8})
          \<longrightarrow> length (sse_orders (sq_schedule sq ! k ! i)) = 1"
    using routine_schedule_staggered [OF rs] i unfolding staggered_indices_set [symmetric]
    by auto
  from 1 2 3 4 show ?thesis by blast
qed

lemma build_schedule_needs_time:
  assumes r: "r \<in> set routines"
    and tr: "ar_name r = ''Staggered training'' \<or> ar_name r = ''Constant training''"
    and missing: "cur_year st = None \<or> cur_year_tick st = None"
  shows "\<exists>f. build_schedule st c sz routines = Inl f"
proof (cases "build_schedule st c sz routines")
  case (Inl f)
  then show ?thesis by simp
next
  case (Inr sched)
  from r obtain k where k: "k < length routines" and rk: "routines ! k = r"
    by (auto simp: in_set_conv_nth)
  from build_schedule_Inr [OF Inr] k rk
  have rs: "routine_schedule st c sz r = Inr (sched ! k)"
    by auto
  have "\<exists>y t. cur_year st = Some y \<and> cur_year_tick st = Some t"
    using tr routine_schedule_staggered [OF rs] routine_schedule_constant [OF rs] by blast
  with missing show ?thesis by auto
qed

lemma build_schedule_fault_kind:
  assumes "build_schedule st c sz routines = Inl f" and "0 \<le> sint sz"
  shows "f = NullDeref"
proof -
  from build_schedule_Inl [OF assms(1)] obtain r where "routine_schedule st c sz r = Inl f"
    by blast
  from routine_schedule_Inl [OF this] assms(2) show ?thesis by auto
qed

lemma construct_squad_fault_kind:
  assumes "construct_squad st c pinfo a pos = Inl f"
    and "0 \<le> sint (ep_squad_size pos)"
  shows "f = NullDeref"
  using assms
  by (auto simp: construct_squad_def Let_def split: sum.splits
      dest: build_schedule_fault_kind)

lemma construct_squad_needs_time:
  assumes "r \<in> set (pi_routines pinfo)"
    and "ar_name r = ''Staggered training'' \<or> ar_name r = ''Constant training''"
    and "cur_year st = None \<or> cur_year_tick st = None"
  shows "\<exists>f. construct_squad st c pinfo a pos = Inl f"
  using build_schedule_needs_time [OF assms, of c "ep_squad_size pos"]
  by (auto simp: construct_squad_def Let_def split: sum.splits)

lemma commit_needs_world:
  assumes "world st = None"
  shows "commit gid assignment_id sq st = Inl NullDeref"
  using assms
  by (simp add: commit_def commit_steps_def commit_next_id_def commit_world_squads_def
      commit_fort_squads_def Let_def split: option.splits)

text \<open>
  Claim C9. Once the two guarded globals are available: if the settlement entity is not
  found, the call faults with a null dereference; if the preconditions pass and a routine
  named \<open>Staggered training\<close> or \<open>Constant training\<close> exists while the current-year or
  the year-tick global is missing, the call faults; if the preconditions pass and the world
  global is missing, the call faults; in both cases the fault is the null dereference
  whenever the squad size is not negative. With the entity and the three globals in place
  and a squad size that is not negative the call returns a squad.
\<close>

theorem makeSquad_unguarded:
  assumes c: "squad_next_id st = Some c" and p: "plotinfo st = Some pinfo"
  shows "(historical_entity_find st (pi_group_id pinfo) = None \<longrightarrow>
            makeSquad st assignment_id = Inl NullDeref) \<and>
    (\<forall>fort a pos.
       historical_entity_find st (pi_group_id pinfo) = Some fort \<and>
       find_first (\<lambda>a. epa_id a = assignment_id) (he_assignments fort) = Some a \<and>
       epa_squad_id a = - 1 \<and>
       find_first (\<lambda>p. ep_id p = epa_position_id a) (he_own fort) = Some pos \<longrightarrow>
       ((\<exists>r\<in>set (pi_routines pinfo).
            ar_name r = ''Staggered training'' \<or> ar_name r = ''Constant training'') \<and>
        (cur_year st = None \<or> cur_year_tick st = None) \<longrightarrow>
          (\<exists>f. makeSquad st assignment_id = Inl f) \<and>
          (0 \<le> sint (ep_squad_size pos) \<longrightarrow> makeSquad st assignment_id = Inl NullDeref)) \<and>
       (world st = None \<longrightarrow>
          (\<exists>f. makeSquad st assignment_id = Inl f) \<and>
          (0 \<le> sint (ep_squad_size pos) \<longrightarrow> makeSquad st assignment_id = Inl NullDeref)) \<and>
       (world st \<noteq> None \<and> cur_year st \<noteq> None \<and> cur_year_tick st \<noteq> None \<and>
        0 \<le> sint (ep_squad_size pos) \<longrightarrow>
          (\<exists>sq st'. makeSquad st assignment_id = Inr (Some sq, st'))))"
proof (intro conjI allI impI)
  assume "historical_entity_find st (pi_group_id pinfo) = None"
  then show "makeSquad st assignment_id = Inl NullDeref"
    using c p by (simp add: makeSquad_def)
next
  fix fort a pos
  assume res: "historical_entity_find st (pi_group_id pinfo) = Some fort \<and>
       find_first (\<lambda>a. epa_id a = assignment_id) (he_assignments fort) = Some a \<and>
       epa_squad_id a = - 1 \<and>
       find_first (\<lambda>p. ep_id p = epa_position_id a) (he_own fort) = Some pos"
  then have f: "historical_entity_find st (pi_group_id pinfo) = Some fort"
    and a: "find_first (\<lambda>a. epa_id a = assignment_id) (he_assignments fort) = Some a"
    and free: "epa_squad_id a = - 1"
    and pos: "find_first (\<lambda>p. ep_id p = epa_position_id a) (he_own fort) = Some pos"
    by simp_all
  note unfold = makeSquad_resolved [OF c p f a free pos]
  {
    assume tr: "(\<exists>r\<in>set (pi_routines pinfo).
            ar_name r = ''Staggered training'' \<or> ar_name r = ''Constant training'') \<and>
        (cur_year st = None \<or> cur_year_tick st = None)"
    then obtain r where r: "r \<in> set (pi_routines pinfo)"
      and rn: "ar_name r = ''Staggered training'' \<or> ar_name r = ''Constant training''"
      and missing: "cur_year st = None \<or> cur_year_tick st = None"
      by blast
    from construct_squad_needs_time [OF r rn missing] obtain g where
      g: "construct_squad st c pinfo a pos = Inl g"
      by blast
    show "\<exists>f. makeSquad st assignment_id = Inl f"
      unfolding unfold g by simp
    {
      assume "0 \<le> sint (ep_squad_size pos)"
      then have "g = NullDeref"
        using construct_squad_fault_kind [OF g] by simp
      then show "makeSquad st assignment_id = Inl NullDeref"
        unfolding unfold g by simp
    }
  }
  {
    assume w: "world st = None"
    show "\<exists>f. makeSquad st assignment_id = Inl f"
    proof (cases "construct_squad st c pinfo a pos")
      case (Inl g)
      then show ?thesis unfolding unfold by simp
    next
      case (Inr sq)
      then show ?thesis
        unfolding unfold by (simp add: commit_needs_world [OF w])
    qed
    {
      assume rg: "0 \<le> sint (ep_squad_size pos)"
      show "makeSquad st assignment_id = Inl NullDeref"
      proof (cases "construct_squad st c pinfo a pos")
        case (Inl g)
        then have "g = NullDeref"
          using construct_squad_fault_kind [OF Inl] rg by simp
        with Inl show ?thesis unfolding unfold by simp
      next
        case (Inr sq)
        then show ?thesis
          unfolding unfold by (simp add: commit_needs_world [OF w])
      qed
    }
  }
  {
    assume all: "world st \<noteq> None \<and> cur_year st \<noteq> None \<and> cur_year_tick st \<noteq> None \<and>
        0 \<le> sint (ep_squad_size pos)"
    then obtain w where w: "world st = Some w" by auto
    show "\<exists>sq st'. makeSquad st assignment_id = Inr (Some sq, st')"
      by (rule makeSquad_total [OF c p f a free pos w]) (use all in simp_all)
  }
qed

text \<open>
  The theorem of claim C3 at an odd counter (5) and at an even counter (6).
\<close>

theorem makeSquad_staggered_witness:
  "(\<exists>sq st'.
      makeSquad (ex_make_state 5 [ex_fort 2 (- 1) []] [''Off duty'', ''Staggered training''] []) 7
        = Inr (Some sq, st') \<and>
      length (sq_schedule sq ! 1) = 12 \<and>
      length (sse_orders (sq_schedule sq ! 1 ! 3)) = 1 \<and>
      sse_sleep_mode (sq_schedule sq ! 1 ! 3) = 0 \<and>
      sse_orders (sq_schedule sq ! 1 ! 0) = []) \<and>
   (\<exists>sq st'.
      makeSquad (ex_make_state 6 [ex_fort 2 (- 1) []] [''Off duty'', ''Staggered training''] []) 7
        = Inr (Some sq, st') \<and>
      length (sq_schedule sq ! 1) = 12 \<and>
      length (sse_orders (sq_schedule sq ! 1 ! 0)) = 1 \<and>
      sse_sleep_mode (sq_schedule sq ! 1 ! 0) = 0 \<and>
      sse_orders (sq_schedule sq ! 1 ! 3) = [])"
proof (intro conjI)
  let ?S = "ex_make_state 5 [ex_fort 2 (- 1) []] [''Off duty'', ''Staggered training''] []"
  have "\<exists>sq st'. makeSquad ?S 7 = Inr (Some sq, st')"
    by (rule makeSquad_total [OF ex_resolved ex_globals(3)]) (simp_all add: ex_globals)
  then obtain sq st' where ok: "makeSquad ?S 7 = Inr (Some sq, st')"
    by blast
  have odd5: "odd (sint (5 :: int32_t))" by simp
  from makeSquad_staggered [OF ok ex_globals(1) ex_globals(2), of 1]
  have len: "length (sq_schedule sq ! 1) = 12"
    and all: "\<forall>i<12.
       (i \<in> {3, 4, 5, 9, 10, 11} \<longrightarrow>
          (\<exists>order. sse_orders (sq_schedule sq ! 1 ! i) = [order] \<and> sso_order order \<noteq> None) \<and>
          sse_sleep_mode (sq_schedule sq ! 1 ! i) = 0) \<and>
       (i \<notin> {3, 4, 5, 9, 10, 11} \<longrightarrow> sse_orders (sq_schedule sq ! 1 ! i) = [])"
    unfolding if_P [OF odd5] by (simp_all add: ex_globals)
  have hit: "length (sse_orders (sq_schedule sq ! 1 ! 3)) = 1 \<and>
      sse_sleep_mode (sq_schedule sq ! 1 ! 3) = 0"
    using all [THEN spec, of 3] by auto
  have miss: "sse_orders (sq_schedule sq ! 1 ! 0) = []"
    using all [THEN spec, of 0] by auto
  from ok len hit miss
  show "\<exists>sq st'. makeSquad ?S 7 = Inr (Some sq, st') \<and>
      length (sq_schedule sq ! 1) = 12 \<and>
      length (sse_orders (sq_schedule sq ! 1 ! 3)) = 1 \<and>
      sse_sleep_mode (sq_schedule sq ! 1 ! 3) = 0 \<and>
      sse_orders (sq_schedule sq ! 1 ! 0) = []"
    by blast
next
  let ?S = "ex_make_state 6 [ex_fort 2 (- 1) []] [''Off duty'', ''Staggered training''] []"
  have "\<exists>sq st'. makeSquad ?S 7 = Inr (Some sq, st')"
    by (rule makeSquad_total [OF ex_resolved ex_globals(3)]) (simp_all add: ex_globals)
  then obtain sq st' where ok: "makeSquad ?S 7 = Inr (Some sq, st')"
    by blast
  have even6: "\<not> odd (sint (6 :: int32_t))" by simp
  from makeSquad_staggered [OF ok ex_globals(1) ex_globals(2), of 1]
  have len: "length (sq_schedule sq ! 1) = 12"
    and all: "\<forall>i<12.
       (i \<in> {0, 1, 2, 6, 7, 8} \<longrightarrow>
          (\<exists>order. sse_orders (sq_schedule sq ! 1 ! i) = [order] \<and> sso_order order \<noteq> None) \<and>
          sse_sleep_mode (sq_schedule sq ! 1 ! i) = 0) \<and>
       (i \<notin> {0, 1, 2, 6, 7, 8} \<longrightarrow> sse_orders (sq_schedule sq ! 1 ! i) = [])"
    unfolding if_not_P [OF even6] by (simp_all add: ex_globals)
  have hit: "length (sse_orders (sq_schedule sq ! 1 ! 0)) = 1 \<and>
      sse_sleep_mode (sq_schedule sq ! 1 ! 0) = 0"
    using all [THEN spec, of 0] by auto
  have miss: "sse_orders (sq_schedule sq ! 1 ! 3) = []"
    using all [THEN spec, of 3] by auto
  from ok len hit miss
  show "\<exists>sq st'. makeSquad ?S 7 = Inr (Some sq, st') \<and>
      length (sq_schedule sq ! 1) = 12 \<and>
      length (sse_orders (sq_schedule sq ! 1 ! 0)) = 1 \<and>
      sse_sleep_mode (sq_schedule sq ! 1 ! 0) = 0 \<and>
      sse_orders (sq_schedule sq ! 1 ! 3) = []"
    by blast
qed

text \<open>
  The theorem of claim C4 at slot 4 of a \<open>Constant training\<close> routine, squad size 2,
  year 100 and tick 20.
\<close>

theorem makeSquad_training_orders_witness:
  "\<exists>sq st'.
      makeSquad (ex_make_state 5 [ex_fort 2 (- 1) []] [''Constant training''] []) 7
        = Inr (Some sq, st') \<and>
      (\<exists>order. sse_orders (sq_schedule sq ! 0 ! 4) = [order] \<and>
         sint (sso_min_count order) = 2 \<and> length (sso_positions order) = 2 \<and>
         (\<exists>tr. sso_order order = Some tr \<and> so_year tr = 100 \<and> so_year_tick tr = 20 \<and>
            so_unk_v40_3 tr = - 1)) \<and>
      sse_uniform_mode (sq_schedule sq ! 0 ! 4) = 0 \<and>
      sse_sleep_mode (sq_schedule sq ! 0 ! 4) = 0"
proof -
  let ?S = "ex_make_state 5 [ex_fort 2 (- 1) []] [''Constant training''] []"
  have "\<exists>sq st'. makeSquad ?S 7 = Inr (Some sq, st')"
    by (rule makeSquad_total [OF ex_resolved ex_globals(3)]) (simp_all add: ex_globals)
  then obtain sq st' where ok: "makeSquad ?S 7 = Inr (Some sq, st')"
    by blast
  have k: "0 < length (pi_routines (ex_plotinfo [''Constant training'']))"
    and i: "(4 :: nat) < 12"
    by (simp_all add: ex_globals)
  from makeSquad_training_orders [OF ok ex_resolved(1) ex_resolved(2) ex_resolved(3)
      ex_resolved(4) ex_resolved(6) k i]
  have all: "(\<forall>order\<in>set (sse_orders (sq_schedule sq ! 0 ! 4)).
            sint (sso_min_count order) = 2 \<and>
            int (length (sso_positions order)) = 2 \<and>
            (\<exists>tr. sso_order order = Some tr \<and> so_year tr = 100 \<and> so_year_tick tr = 20 \<and>
               so_unk_v40_3 tr = - 1))"
    and uni: "sse_orders (sq_schedule sq ! 0 ! 4) \<noteq> [] \<longrightarrow>
            sse_uniform_mode (sq_schedule sq ! 0 ! 4) = 0"
    and len: "length (sse_orders (sq_schedule sq ! 0 ! 4)) = 1"
    and slp: "sse_sleep_mode (sq_schedule sq ! 0 ! 4) = 0"
    by (simp_all add: ex_globals)
  from len obtain order where order: "sse_orders (sq_schedule sq ! 0 ! 4) = [order]"
    by (cases "sse_orders (sq_schedule sq ! 0 ! 4)") auto
  with all uni slp ok show ?thesis by auto
qed

text \<open>
  The theorem of claim C9 at a state without the entity, one without the current year,
  one without the world, and one where all of them exist.
\<close>

theorem makeSquad_unguarded_witness:
  "makeSquad (ex_make_state 5 [] [''Constant training''] []) 7 = Inl NullDeref \<and>
   makeSquad ((ex_make_state 5 [ex_fort 2 (- 1) []] [''Constant training''] [])
                \<lparr>cur_year := None\<rparr>) 7 = Inl NullDeref \<and>
   makeSquad ((ex_make_state 5 [ex_fort 2 (- 1) []] [''Constant training''] [])
                \<lparr>world := None\<rparr>) 7 = Inl NullDeref \<and>
   (\<exists>sq st'. makeSquad (ex_make_state 5 [ex_fort 2 (- 1) []] [''Constant training''] []) 7
      = Inr (Some sq, st'))"
proof (intro conjI)
  let ?S = "ex_make_state 5 [ex_fort 2 (- 1) []] [''Constant training''] []"
  show "makeSquad (ex_make_state 5 [] [''Constant training''] []) 7 = Inl NullDeref"
    using makeSquad_unguarded [OF ex_globals(1) ex_globals(2),
        of 5 "[]" "[''Constant training'']" "[]" 7]
    by (simp add: historical_entity_find_def ex_entities)
  have res: "\<And>S. entities S = [ex_fort 2 (- 1) []] \<Longrightarrow>
      historical_entity_find S (pi_group_id (ex_plotinfo [''Constant training'']))
        = Some (ex_fort 2 (- 1) []) \<and>
      find_first (\<lambda>a. epa_id a = 7) (he_assignments (ex_fort 2 (- 1) []))
        = Some \<lparr>epa_id = 7, epa_position_id = 4, epa_squad_id = - 1\<rparr> \<and>
      epa_squad_id \<lparr>epa_id = 7, epa_position_id = 4, epa_squad_id = - 1\<rparr> = - 1 \<and>
      find_first
        (\<lambda>p. ep_id p = epa_position_id \<lparr>epa_id = 7, epa_position_id = 4, epa_squad_id = - 1\<rparr>)
        (he_own (ex_fort 2 (- 1) [])) = Some \<lparr>ep_id = 4, ep_squad_size = 2\<rparr>"
    by (simp add: historical_entity_find_def ex_globals ex_assignment_find ex_position_find)
      (simp add: ex_fort_def)
  have g1: "squad_next_id (?S\<lparr>cur_year := None\<rparr>) = Some 5"
    and g2: "plotinfo (?S\<lparr>cur_year := None\<rparr>) = Some (ex_plotinfo [''Constant training''])"
    and g3: "squad_next_id (?S\<lparr>world := None\<rparr>) = Some 5"
    and g4: "plotinfo (?S\<lparr>world := None\<rparr>) = Some (ex_plotinfo [''Constant training''])"
    by (simp_all add: ex_globals)
  from makeSquad_unguarded [OF g1 g2, of 7] res [of "?S\<lparr>cur_year := None\<rparr>"]
  show "makeSquad (?S\<lparr>cur_year := None\<rparr>) 7 = Inl NullDeref"
    by (simp add: ex_entities ex_globals)
  from makeSquad_unguarded [OF g3 g4, of 7] res [of "?S\<lparr>world := None\<rparr>"]
  show "makeSquad (?S\<lparr>world := None\<rparr>) 7 = Inl NullDeref"
    by (simp add: ex_entities ex_globals)
  from makeSquad_unguarded [OF ex_globals(1) ex_globals(2), of 5 "[ex_fort 2 (- 1) []]"
      "[''Constant training'']" "[]" 7] res [of ?S]
  show "\<exists>sq st'. makeSquad ?S 7 = Inr (Some sq, st')"
    by (simp add: ex_entities ex_globals)
qed

end
